theory Spec2Isabelle
  imports Complex_Main
begin

section \<open>Anthropogenic emission preprocessing (iptpy.anthro_emission.fv)\<close>

text \<open>
  A shallow embedding of the class \<open>FV\<close> of \<open>fv.py\<close> (and, where it differs, of the
  class \<open>Rename\<close> of \<open>fv/rename.py\<close>): the constructor's validation and species
  bookkeeping, the time slicing of \<open>sum_up\<close>, the longitude alignment of
  \<open>apply_regridder\<close> and the unit conversion and species recombination of
  \<open>rename\<close>.

  Numbers: Python's unbounded integers are \<open>int\<close>; floating-point values are modelled
  as exact reals, so every product and quotient below is the mathematical one and the
  rounding of the 8-byte and 4-byte floats of the source is not represented.
  Exceptions are values of the type \<open>error\<close>.
\<close>

datatype error =
  ValueError | KeyError | FileNotFoundError | ZeroDivisionError | IndexError | NameError

subsection \<open>Python indexing and label slicing\<close>

text \<open>\<open>xs[i]\<close>: a negative index counts from the end, an index off the list raises.\<close>

definition py_getitem :: "'a list \<Rightarrow> int \<Rightarrow> error + 'a" where
  "py_getitem xs i =
     (if 0 \<le> i \<and> i < int (length xs) then Inr (xs ! nat i)
      else if i < 0 \<and> - int (length xs) \<le> i then Inr (xs ! nat (int (length xs) + i))
      else Inl IndexError)"

text \<open>
  A dataset with a time dimension is the list of its time steps, each a pair of the
  time label and the data of that step. \<open>ds.sel(time=slice(a, b))\<close> selects by label
  and includes both ends.
\<close>

definition sel_time_slice :: "('t::linorder \<times> 'v) list \<Rightarrow> 't \<Rightarrow> 't \<Rightarrow> ('t \<times> 'v) list" where
  "sel_time_slice ds a b = filter (\<lambda>tv. a \<le> fst tv \<and> fst tv \<le> b) ds"

subsection \<open>sum\_up: the window of the aggregator\<close>

definition period_start_index :: "int \<Rightarrow> int \<Rightarrow> int" where
  "period_start_index start_year start_month = (start_year - 2000) * 12 + start_month - 1"

definition period_end_index :: "int \<Rightarrow> int \<Rightarrow> int" where
  "period_end_index end_year end_month = (end_year - 2000) * 12 + end_month - 1"

text \<open>
  \<open>ds_var.sel(time=slice(ds_var.time[period_start_index], ds_var.time[period_end_index]))\<close>:
  the two labels are read by position (Python indexing), the slice is taken by label.
  The opened inventory file is the parameter \<open>ds_var\<close>.
\<close>

definition ds_var_period ::
  "('t::linorder \<times> 'v) list \<Rightarrow> int \<Rightarrow> int \<Rightarrow> int \<Rightarrow> int \<Rightarrow> error + ('t \<times> 'v) list" where
  "ds_var_period ds_var start_year start_month end_year end_month =
     (case py_getitem (map fst ds_var) (period_start_index start_year start_month) of
        Inl e \<Rightarrow> Inl e
      | Inr t0 \<Rightarrow>
          (case py_getitem (map fst ds_var) (period_end_index end_year end_month) of
             Inl e \<Rightarrow> Inl e
           | Inr t1 \<Rightarrow> Inr (sel_time_slice ds_var t0 t1)))"

text \<open>A horizontal grid of values, indexed by latitude and longitude position.\<close>

type_synonym grid = "nat \<Rightarrow> nat \<Rightarrow> real"

text \<open>\<open>da.sum(dim='sector')\<close> on one time step: the cellwise sum of the sector grids.\<close>

definition sum_sector :: "grid list \<Rightarrow> grid" where
  "sum_sector gs = (\<lambda>i j. sum_list (map (\<lambda>g. g i j) gs))"

text \<open>
  The summed field written for one inventory variable other than SO2: the window is
  cut out, then the sector dimension is summed away at every time step.
\<close>

definition sum_up_var ::
  "('t::linorder \<times> grid list) list \<Rightarrow> int \<Rightarrow> int \<Rightarrow> int \<Rightarrow> int \<Rightarrow> error + ('t \<times> grid) list" where
  "sum_up_var ds_var start_year start_month end_year end_month =
     (case ds_var_period ds_var start_year start_month end_year end_month of
        Inl e \<Rightarrow> Inl e
      | Inr period \<Rightarrow> Inr (map (\<lambda>tv. (fst tv, sum_sector (snd tv))) period))"

text \<open>
  The time axis of the inventory file opened by \<open>sum_up\<close>
  (\<open>..._gn_200001-201912.nc\<close>): 240 monthly steps, labelled here by the number of
  months since January 2000, each with the given sector grids.
\<close>

definition ceds_file :: "grid list \<Rightarrow> (int \<times> grid list) list" where
  "ceds_file gs = map (\<lambda>k. (int k, gs)) [0..<240]"

text \<open>
  For sulfur dioxide \<open>sum_up\<close> writes one file per sector instead:
  \<open>ds_var_period[varname].sel(sector=i)\<close> at every time step, for the eight sectors
  \<open>agr, ene, ind, tra, res, sol, was, shp\<close> in this order.
\<close>

definition sector_list :: "string list" where
  "sector_list = [''agr'', ''ene'', ''ind'', ''tra'', ''res'', ''sol'', ''was'', ''shp'']"

definition sel_sector :: "nat \<Rightarrow> ('t \<times> grid list) list \<Rightarrow> error + ('t \<times> grid) list" where
  "sel_sector i period =
     (if \<exists>tv \<in> set period. length (snd tv) \<le> i then Inl KeyError
      else Inr (map (\<lambda>tv. (fst tv, snd tv ! i)) period))"

subsection \<open>The constructor\<close>

text \<open>
  The inventory name or names of a model tracer: a single string, or a list of
  strings for a tracer that is a sum of several (\<open>isinstance(species, list)\<close>).
\<close>

datatype species = Single string | Multi "string list"

definition full_model_var_list :: "string list" where
  "full_model_var_list =
     [''bc_a4'', ''CO'', ''NH3'', ''NO'', ''pom_a4'', ''SO2'',
      ''C2H6'', ''C3H8'', ''C2H4'', ''C3H6'', ''C2H2'', ''BIGENE'',
      ''BENZENE'', ''TOLUENE'', ''CH2O'', ''CH3CHO'', ''BIGALK'', ''XYLENES'',
      ''CH3OH'', ''C2H5OH'', ''CH3COCH3'', ''MEK'', ''HCOOH'',
      ''CH3COOH'', ''IVOC'']"

definition species_mapping :: "string \<rightharpoonup> species" where
  "species_mapping = map_of
     [(''bc_a4'', Single ''bc''), (''CO'', Single ''co''), (''NH3'', Single ''nh3''),
      (''NO'', Single ''nox''), (''pom_a4'', Single ''oc''), (''SO2'', Single ''so2''),
      (''C2H6'', Single ''ethane''), (''C3H8'', Single ''propane''),
      (''C2H4'', Single ''ethene''), (''C3H6'', Single ''propene''),
      (''C2H2'', Single ''ethyne''), (''BIGENE'', Single ''other-alkenes-and-alkynes''),
      (''BENZENE'', Single ''benzene''), (''TOLUENE'', Single ''toluene''),
      (''CH2O'', Single ''methanal''), (''CH3CHO'', Single ''other-aldehydes''),
      (''BIGALK'', Multi [''butanes'', ''pentanes'', ''hexanes'', ''esters'', ''ethers'']),
      (''XYLENES'', Multi [''xylene'', ''trimethylbenzene'', ''other-aromatics'']),
      (''CH3OH'', Single ''alcohols''), (''C2H5OH'', Single ''alcohols''),
      (''CH3COCH3'', Single ''ketones''), (''MEK'', Single ''ketones''),
      (''HCOOH'', Single ''acids''), (''CH3COOH'', Single ''acids''),
      (''IVOC'', Multi [''C3H6'', ''C3H8'', ''C2H6'', ''C2H4'', ''BIGENE'', ''BIGALK'',
                        ''CH3COCH3'', ''MEK'', ''CH3CHO'', ''CH2O'', ''BENZENE'',
                        ''TOLUENE'', ''XYLENES''])]"

text \<open>\<open>[d[k] for k in keys]\<close>: the first missing key raises \<open>KeyError\<close>.\<close>

fun lookup_all :: "('k \<rightharpoonup> 'v) \<Rightarrow> 'k list \<Rightarrow> error + 'v list" where
  "lookup_all d [] = Inr []"
| "lookup_all d (k # ks) =
     (case d k of
        None \<Rightarrow> Inl KeyError
      | Some v \<Rightarrow> (case lookup_all d ks of Inl e \<Rightarrow> Inl e | Inr vs \<Rightarrow> Inr (v # vs)))"

text \<open>
  \<open>np.arange(start, stop, step)\<close> for a positive step: the values
  \<open>start + i * step\<close> for \<open>i\<close> below \<open>ceil((stop - start) / step)\<close>.
\<close>

definition arange :: "real \<Rightarrow> real \<Rightarrow> real \<Rightarrow> real list" where
  "arange start stop step =
     map (\<lambda>i. start + real i * step) [0..<nat \<lceil>(stop - start) / step\<rceil>]"

text \<open>
  \<open>float(original_resolution.split('x')[0])\<close>. The constructor has by then refused
  every resolution string but \<open>0.1x0.1\<close> (CAMS-GLOB-ANT) and \<open>0.5x0.5\<close> (CEDS).
\<close>

definition grid_spacing :: "string \<Rightarrow> real" where
  "grid_spacing original_resolution =
     (if original_resolution = ''0.1x0.1'' then 1 / 10 else 1 / 2)"

text \<open>
  The arguments of \<open>FV.__init__\<close> that decide its checks and orderings; an optional
  argument left at \<open>None\<close> is \<open>None\<close>. Paths, the regridder file name and the
  creation date only build file names and are left out.
\<close>

record FV_args =
  arg_source :: string
  arg_version :: string
  arg_start_year :: int
  arg_end_year :: int
  arg_start_month :: "int option"
  arg_end_month :: "int option"
  arg_download_method :: "string option"
  arg_original_resolution :: "string option"
  arg_target_resolution :: string
  arg_model_var_list :: "string list option"

text \<open>The attributes of the constructed object that the methods below read.\<close>

record FV =
  self_source :: string
  self_version :: string
  self_download_method :: string
  self_original_resolution :: string
  self_model_var_list :: "string list"
  self_species_mapping :: "species list"
  self_start_year :: int
  self_end_year :: int
  self_start_month :: int
  self_end_month :: int
  self_original_lat :: "real list"
  self_original_lon :: "real list"
  self_target_lon :: "real list"

text \<open>
  \<open>FV.__init__\<close>, in the order of the source. \<open>this_year\<close> is
  \<open>datetime.datetime.now().year\<close>. The list \<open>_species_mapping\<close> is built from the
  requested list before \<open>IVOC\<close> is moved to the end of \<open>_model_var_list\<close>
  (\<open>list.remove\<close> takes out the first occurrence only). The comparison of the window's
  ends, \<open>end_year + end_month/12 <= start_year + start_month/12\<close>, is taken over the
  reals.
\<close>

definition FV_init :: "int \<Rightarrow> FV_args \<Rightarrow> error + FV" where
  "FV_init this_year a =
     (if arg_source a \<notin> set [''CAMS-GLOB-ANT'', ''CEDS''] then Inl ValueError
      else if arg_target_resolution a \<notin> set [''0.9x1.25''] then Inl ValueError
      else
        let requested = (case arg_model_var_list a of
                           None \<Rightarrow> full_model_var_list | Some l \<Rightarrow> l);
            invalid_vars = filter (\<lambda>var. var \<notin> set full_model_var_list) requested
        in if invalid_vars \<noteq> [] then Inl ValueError
        else (case lookup_all species_mapping requested of
          Inl e \<Rightarrow> Inl e
        | Inr sm \<Rightarrow>
          let model_vars = (if ''IVOC'' \<in> set requested
                            then remove1 ''IVOC'' requested @ [''IVOC'']
                            else requested);
              method = (case arg_download_method a of None \<Rightarrow> ''wget'' | Some m \<Rightarrow> m);
              cams = (arg_source a = ''CAMS-GLOB-ANT'');
              def_version = (if cams then [''v5.3'', ''v6.2''] else [''v2021-04-21'']);
              def_original_resolution = (if cams then ''0.1x0.1'' else ''0.5x0.5'');
              def_first_year = (if cams then 2000
                                else if method = ''wget'' then 1950 else 1750);
              def_last_year = (if cams then this_year - 1 else 2019);
              sm_month = (case arg_start_month a of None \<Rightarrow> 1 | Some m \<Rightarrow> m);
              em_month = (case arg_end_month a of None \<Rightarrow> 12 | Some m \<Rightarrow> m)
          in if arg_version a \<notin> set def_version then Inl ValueError
          else if arg_original_resolution a \<noteq> Some def_original_resolution
            then Inl ValueError
          else if arg_start_year a > arg_end_year a then Inl ValueError
          else if arg_start_year a < def_first_year then Inl ValueError
          else if arg_end_year a > def_last_year then Inl ValueError
          else if real_of_int (arg_end_year a) + real_of_int em_month / 12
                  \<le> real_of_int (arg_start_year a) + real_of_int sm_month / 12
            then Inl ValueError
          else Inr \<lparr>self_source = arg_source a,
                    self_version = arg_version a,
                    self_download_method = method,
                    self_original_resolution = def_original_resolution,
                    self_model_var_list = model_vars,
                    self_species_mapping = sm,
                    self_start_year = arg_start_year a,
                    self_end_year = arg_end_year a,
                    self_start_month = sm_month,
                    self_end_month = em_month,
                    self_original_lat = arange (- 90) 90 (grid_spacing def_original_resolution),
                    self_original_lon = arange 0 360 (grid_spacing def_original_resolution),
                    self_target_lon = arange 0 360 (5 / 4)\<rparr>))"

text \<open>
  \<open>FV.sum_up\<close> for one inventory variable other than SO2: the method refuses every
  source but CEDS and every download method but globus, then cuts the window out of
  the opened file and sums the sectors.
\<close>

definition FV_sum_up :: "FV \<Rightarrow> ('t::linorder \<times> grid list) list \<Rightarrow> error + ('t \<times> grid) list" where
  "FV_sum_up self ds_var =
     (if self_source self \<noteq> ''CEDS'' then Inl ValueError
      else if self_download_method self \<noteq> ''globus'' then Inl ValueError
      else sum_up_var ds_var (self_start_year self) (self_start_month self)
             (self_end_year self) (self_end_month self))"

text \<open>Constructing the object and calling \<open>sum_up\<close> on it.\<close>

definition FV_init_sum_up ::
  "int \<Rightarrow> FV_args \<Rightarrow> ('t::linorder \<times> grid list) list \<Rightarrow> error + ('t \<times> grid) list" where
  "FV_init_sum_up this_year a ds_var =
     (case FV_init this_year a of Inl e \<Rightarrow> Inl e | Inr self \<Rightarrow> FV_sum_up self ds_var)"

subsection \<open>apply\_regridder: the longitude alignment\<close>

text \<open>
  A dataset on the source grid, seen along its longitude dimension: the longitude
  coordinate and, for every longitude position, the data at that position. The
  latitude coordinate is reassigned by the same call and plays no part below.
\<close>

record 'a lon_ds =
  lon :: "real list"
  cols :: "'a list"

text \<open>
  \<open>np.roll\<close> along one dimension: the element at position \<open>i\<close> moves to position
  \<open>(i + shift) mod n\<close>, so the last \<open>shift mod n\<close> elements come first.
\<close>

definition roll :: "nat \<Rightarrow> 'a list \<Rightarrow> 'a list" where
  "roll shift xs =
     drop (length xs - shift mod length xs) xs @ take (length xs - shift mod length xs) xs"

text \<open>
  The three steps before the regridder is applied:
  \<open>ds.roll(lon=nlon, roll_coords=True)\<close>, then
  \<open>xr.where(lon < 0, lon + 360, lon)\<close>, then
  \<open>assign_coords(lon=self._original_lon)\<close>, which raises when the new coordinate
  has another length than the dimension.
\<close>

definition rolled_source_ds :: "nat \<Rightarrow> real list \<Rightarrow> 'a lon_ds \<Rightarrow> error + 'a lon_ds" where
  "rolled_source_ds nlon original_lon ds =
     (let rolled = \<lparr>lon = roll nlon (lon ds), cols = roll nlon (cols ds)\<rparr>;
          remapped = rolled\<lparr>lon := map (\<lambda>x. if x < 0 then x + 360 else x) (lon rolled)\<rparr>
      in if length original_lon \<noteq> length (cols remapped) then Inl ValueError
         else Inr (remapped\<lparr>lon := original_lon\<rparr>))"

text \<open>\<open>nlon\<close> is 1800 for CAMS-GLOB-ANT and 360 for CEDS.\<close>

definition FV_rolled_source_ds :: "FV \<Rightarrow> 'a lon_ds \<Rightarrow> error + 'a lon_ds" where
  "FV_rolled_source_ds self ds =
     rolled_source_ds (if self_source self = ''CAMS-GLOB-ANT'' then 1800 else 360)
       (self_original_lon self) ds"

subsection \<open>rename: the time and date coordinates\<close>

text \<open>A calendar date: year, month, day.\<close>

type_synonym date = "int \<times> int \<times> int"

definition periods :: "int \<Rightarrow> int \<Rightarrow> int" where
  "periods start_year end_year = 12 * (end_year - start_year + 1)"

text \<open>
  \<open>pd.date_range(start=str(start_year) + '-01-01', periods=n, freq='MS')\<close>: the first
  days of \<open>n\<close> successive months from January of the start year; a negative number of
  periods raises.
\<close>

definition date_range_MS :: "int \<Rightarrow> int \<Rightarrow> error + date list" where
  "date_range_MS start_year n =
     (if n < 0 then Inl ValueError
      else Inr (map (\<lambda>k. (start_year + int (k div 12), int (k mod 12) + 1, 1)) [0..<nat n]))"

text \<open>
  \<open>new_time_values\<close>: for CAMS-GLOB-ANT the first of each month, for CEDS the same
  dates moved by \<open>pd.DateOffset(days=15)\<close>, the sixteenth.
\<close>

definition new_time_values :: "string \<Rightarrow> int \<Rightarrow> int \<Rightarrow> error + date list" where
  "new_time_values source start_year end_year =
     (case date_range_MS start_year (periods start_year end_year) of
        Inl e \<Rightarrow> Inl e
      | Inr ds \<Rightarrow>
          if source = ''CAMS-GLOB-ANT'' then Inr ds
          else Inr (map (\<lambda>d. (fst d, fst (snd d), snd (snd d) + 15)) ds))"

text \<open>
  \<open>nc.date2num(..., units='days since 2000-01-01 00:00:00', calendar='noleap')\<close>:
  every year has 365 days.
\<close>

definition days_before_month :: "int \<Rightarrow> int" where
  "days_before_month m =
     [0, 31, 59, 90, 120, 151, 181, 212, 243, 273, 304, 334] ! nat (m - 1)"

definition date2num_noleap :: "date \<Rightarrow> int" where
  "date2num_noleap d =
     (fst d - 2000) * 365 + days_before_month (fst (snd d)) + (snd (snd d) - 1)"

text \<open>\<open>strftime('%Y%m%d').astype(int)\<close> for a four-digit year.\<close>

definition yyyymmdd :: "date \<Rightarrow> int" where
  "yyyymmdd d = fst d * 10000 + fst (snd d) * 100 + snd (snd d)"

definition new_time_numeric :: "date list \<Rightarrow> int list" where
  "new_time_numeric ds = map date2num_noleap ds"

definition date_values :: "date list \<Rightarrow> int list" where
  "date_values ds = map yyyymmdd ds"

subsection \<open>rename: fields and files\<close>

text \<open>
  An emission field on the target grid is indexed by time step, latitude and
  longitude position; the vertical sulfate field has the altitude layer as its
  second index. The sizes of the dimensions (192 by 288 cells, 8 layers) are not
  part of the type.
\<close>

type_synonym field = "nat \<Rightarrow> nat \<Rightarrow> nat \<Rightarrow> real"

type_synonym field4 = "nat \<Rightarrow> nat \<Rightarrow> nat \<Rightarrow> nat \<Rightarrow> real"

text \<open>
  The variables of a NetCDF file: integer coordinates (\<open>time\<close>, \<open>date\<close>), real
  coordinates (\<open>lon\<close>, \<open>altitude\<close>) and data. Attributes (units, long names) and
  the literal table of the 192 target latitudes are left out.
\<close>

datatype ncvar = Coord "int list" | Levels "real list" | Var3 field | Var4 field4

type_synonym ncfile = "string \<rightharpoonup> ncvar"

text \<open>
  File names. Within one run every part of a name but one is fixed (paths, source,
  version, resolution, dates, creation date), so a file is named by the part that
  varies: for a file under \<open>regridded_path\<close> the text between \<open>_anthro_\<close> and the
  version (\<open>co\<close>, \<open>so2_ene\<close>), for a file under \<open>renamed_path\<close> the text between the
  version and the dates (\<open>CO_anthro\<close>, \<open>num_bc_a4_anthro\<close>, \<open>SO2_anthro-ene\<close>).
\<close>

datatype path = Regridded string | Renamed string

type_synonym files = "path \<rightharpoonup> ncfile"

text \<open>Running a step on the result of the step before, unless that one raised.\<close>

definition on_success :: "error + 'a \<Rightarrow> ('a \<Rightarrow> error + 'b) \<Rightarrow> error + 'b" where
  "on_success r k = (case r of Inl e \<Rightarrow> Inl e | Inr x \<Rightarrow> k x)"

text \<open>
  \<open>str\<close> of a species as an f-string formats it: a string is itself, a list is its
  Python display, \<open>['a', 'b']\<close>.
\<close>

fun join_quoted :: "string list \<Rightarrow> string" where
  "join_quoted [] = []"
| "join_quoted [x] = CHR 0x27 # x @ [CHR 0x27]"
| "join_quoted (x # y # ys) = CHR 0x27 # x @ [CHR 0x27] @ '', '' @ join_quoted (y # ys)"

definition py_str :: "species \<Rightarrow> string" where
  "py_str sp = (case sp of Single s \<Rightarrow> s | Multi xs \<Rightarrow> ''['' @ join_quoted xs @ '']'')"

text \<open>
  \<open>for sub_var in species\<close>: the elements of a list, the characters of a string.
\<close>

definition sub_vars :: "species \<Rightarrow> string list" where
  "sub_vars sp = (case sp of Multi xs \<Rightarrow> xs | Single s \<Rightarrow> map (\<lambda>c. [c]) s)"

text \<open>\<open>xr.open_dataset(p)[v].values\<close> of a three-dimensional variable.\<close>

definition read_field :: "files \<Rightarrow> path \<Rightarrow> string \<Rightarrow> error + field" where
  "read_field fs p v =
     (case fs p of
        None \<Rightarrow> Inl FileNotFoundError
      | Some f \<Rightarrow>
          (case f v of
             None \<Rightarrow> Inl KeyError
           | Some (Var3 x) \<Rightarrow> Inr x
           | Some _ \<Rightarrow> Inl ValueError))"

text \<open>\<open>output[v][...] = x\<close> on an open file.\<close>

definition put_var :: "files \<Rightarrow> path \<Rightarrow> string \<Rightarrow> ncvar \<Rightarrow> error + files" where
  "put_var fs p v x =
     (case fs p of
        None \<Rightarrow> Inl FileNotFoundError
      | Some f \<Rightarrow> Inr (fs(p \<mapsto> f(v \<mapsto> x))))"

text \<open>\<open>output[v][:, :, :] += x\<close>.\<close>

definition iadd_field :: "files \<Rightarrow> path \<Rightarrow> string \<Rightarrow> field \<Rightarrow> error + files" where
  "iadd_field fs p v x =
     (case read_field fs p v of
        Inl e \<Rightarrow> Inl e
      | Inr acc \<Rightarrow> put_var fs p v (Var3 (\<lambda>t i j. acc t i j + x t i j)))"

text \<open>\<open>ds[v][...] *= c\<close> on a data variable with three or four dimensions.\<close>

definition imul_var :: "files \<Rightarrow> path \<Rightarrow> string \<Rightarrow> real \<Rightarrow> error + files" where
  "imul_var fs p v c =
     (case fs p of
        None \<Rightarrow> Inl FileNotFoundError
      | Some f \<Rightarrow>
          (case f v of
             None \<Rightarrow> Inl IndexError
           | Some (Var3 x) \<Rightarrow> put_var fs p v (Var3 (\<lambda>t i j. x t i j * c))
           | Some (Var4 x) \<Rightarrow> put_var fs p v (Var4 (\<lambda>t k i j. x t k i j * c))
           | Some _ \<Rightarrow> Inl ValueError))"

text \<open>\<open>sh.copy(src, dst)\<close>, after any file at \<open>dst\<close> is removed.\<close>

definition copy_file :: "files \<Rightarrow> path \<Rightarrow> path \<Rightarrow> error + files" where
  "copy_file fs src dst =
     (case fs src of None \<Rightarrow> Inl FileNotFoundError | Some f \<Rightarrow> Inr (fs(dst \<mapsto> f)))"

text \<open>
  A file as it is after \<open>nc.Dataset(file, 'w')\<close> and the writes of its coordinates:
  any file that was there is gone, and \<open>time\<close>, \<open>date\<close> and \<open>lon\<close> are set.
\<close>

definition new_file :: "int list \<Rightarrow> int list \<Rightarrow> real list \<Rightarrow> ncfile" where
  "new_file time_numeric dates target_lon =
     [''time'' \<mapsto> Coord time_numeric, ''date'' \<mapsto> Coord dates, ''lon'' \<mapsto> Levels target_lon]"

subsection \<open>rename: constants and default tables\<close>

definition avogadro_number :: real where
  "avogadro_number = 6.022 * 10 ^ 23"

definition m2_to_cm2 :: real where
  "m2_to_cm2 = 10 ^ 4"

definition kg_to_g :: real where
  "kg_to_g = 10 ^ 3"

text \<open>\<open>unit_factor\<close> of the source.\<close>

definition unit_factor_c :: real where
  "unit_factor_c = avogadro_number * kg_to_g / m2_to_cm2"

definition mass_per_particle :: "real \<Rightarrow> real \<Rightarrow> real" where
  "mass_per_particle rho diam = rho * (pi / 6) * diam ^ 3"

text \<open>The molecular weights and scale factors \<open>FV.rename\<close> uses when none are given.\<close>

definition FV_mw_mapping :: "string \<rightharpoonup> real" where
  "FV_mw_mapping = map_of
     [(''bc_a4'', 12), (''CO'', 28), (''NH3'', 17), (''NO'', 30), (''pom_a4'', 12),
      (''SO2'', 64), (''C2H6'', 30), (''C3H8'', 44), (''C2H4'', 28), (''C3H6'', 42),
      (''C2H2'', 26), (''BIGENE'', 56), (''BENZENE'', 78), (''TOLUENE'', 92),
      (''CH2O'', 30), (''CH3CHO'', 44), (''BIGALK'', 72), (''XYLENES'', 106),
      (''CH3OH'', 32), (''C2H5OH'', 46), (''CH3COCH3'', 58), (''MEK'', 72),
      (''HCOOH'', 46), (''CH3COOH'', 60), (''IVOC'', 184),
      (''butanes'', 58), (''pentanes'', 72), (''hexanes'', 86), (''esters'', 184),
      (''ethers'', 81), (''xylene'', 106), (''trimethylbenzene'', 120),
      (''other-aromatics'', 126)]"

definition sf_mapping :: "string \<rightharpoonup> real" where
  "sf_mapping = map_of
     [(''bc_a4'', 1), (''CO'', 1), (''NH3'', 1), (''NO'', 46 / 30), (''pom_a4'', 1.4),
      (''SO2'', 1), (''C2H6'', 1), (''C3H8'', 1), (''C2H4'', 1), (''C3H6'', 1),
      (''C2H2'', 1), (''BIGENE'', 1), (''BENZENE'', 1), (''TOLUENE'', 1),
      (''CH2O'', 1), (''CH3CHO'', 1), (''BIGALK'', 1), (''XYLENES'', 1),
      (''CH3OH'', 0.15), (''C2H5OH'', 0.85), (''CH3COCH3'', 0.2), (''MEK'', 0.8),
      (''HCOOH'', 0.5), (''CH3COOH'', 0.5), (''IVOC'', 0.2)]"

subsection \<open>rename: one tracer with a single output file\<close>

text \<open>
  The output file is created; for a list of inventory species the field is set to
  zero, for a single one the regridded field is read and converted,
  \<open>values * (unit_factor / mw) * sf\<close>.
\<close>

definition write_emiss_anthro ::
  "files \<Rightarrow> string \<Rightarrow> ncfile \<Rightarrow> species \<Rightarrow> real \<Rightarrow> real \<Rightarrow> error + files" where
  "write_emiss_anthro fs label blank sp mw sf =
     (let fs1 = fs(Renamed label \<mapsto> blank) in
      case sp of
        Multi xs \<Rightarrow> put_var fs1 (Renamed label) ''emiss_anthro'' (Var3 (\<lambda>t i j. 0))
      | Single s \<Rightarrow>
          on_success (read_field fs1 (Regridded s) ''emiss_anthro'') (\<lambda>x.
            if mw = 0 then Inl ZeroDivisionError
            else put_var fs1 (Renamed label) ''emiss_anthro''
                   (Var3 (\<lambda>t i j. x t i j * (unit_factor_c / mw) * sf))))"

text \<open>A copy of a written file with one variable rescaled in place.\<close>

definition scaled_copy :: "files \<Rightarrow> string \<Rightarrow> string \<Rightarrow> string \<Rightarrow> real \<Rightarrow> error + files" where
  "scaled_copy fs src dst v c =
     on_success (copy_file fs (Renamed src) (Renamed dst)) (\<lambda>fs1.
       imul_var fs1 (Renamed dst) v c)"

text \<open>
  The loop of the first-tier composites: every child's regridded field is added to
  the output as \<open>values * (sub_mw / mw) * (unit_factor / sub_mw) * sf\<close>.
\<close>

fun add_regridded_children ::
  "(string \<rightharpoonup> real) \<Rightarrow> string \<Rightarrow> real \<Rightarrow> real \<Rightarrow> string list \<Rightarrow> files \<Rightarrow> error + files" where
  "add_regridded_children sub_mw_mapping label mw sf [] fs = Inr fs"
| "add_regridded_children sub_mw_mapping label mw sf (sub_var # rest) fs =
     (case sub_mw_mapping sub_var of
        None \<Rightarrow> Inl KeyError
      | Some sub_mw \<Rightarrow>
          on_success (read_field fs (Regridded sub_var) ''emiss_anthro'') (\<lambda>x.
            if mw = 0 \<or> sub_mw = 0 then Inl ZeroDivisionError
            else
              on_success
                (iadd_field fs (Renamed label) ''emiss_anthro''
                   (\<lambda>t i j. x t i j * (sub_mw / mw) * (unit_factor_c / sub_mw) * sf))
                (add_regridded_children sub_mw_mapping label mw sf rest)))"

text \<open>
  The loop of IVOC: every child's renamed output file is read and added to the
  output as \<open>values * (sub_mw / mw) * sf\<close>.
\<close>

fun add_renamed_children ::
  "(string \<rightharpoonup> real) \<Rightarrow> string \<Rightarrow> real \<Rightarrow> real \<Rightarrow> string list \<Rightarrow> files \<Rightarrow> error + files" where
  "add_renamed_children sub_mw_mapping label mw sf [] fs = Inr fs"
| "add_renamed_children sub_mw_mapping label mw sf (sub_var # rest) fs =
     (case sub_mw_mapping sub_var of
        None \<Rightarrow> Inl KeyError
      | Some sub_mw \<Rightarrow>
          on_success (read_field fs (Renamed (sub_var @ ''_anthro'')) ''emiss_anthro'') (\<lambda>x.
            if mw = 0 then Inl ZeroDivisionError
            else
              on_success
                (iadd_field fs (Renamed label) ''emiss_anthro''
                   (\<lambda>t i j. x t i j * (sub_mw / mw) * sf))
                (add_renamed_children sub_mw_mapping label mw sf rest)))"

subsection \<open>rename: sulfur dioxide\<close>

text \<open>
  One aggregate variable of a sulfur file: set to zero, then every sector of the
  group is read from its regridded file and added as
  \<open>values * 0.975 * (unit_factor / mw)\<close>.
\<close>

fun add_sectors ::
  "string \<Rightarrow> real \<Rightarrow> string \<Rightarrow> string \<Rightarrow> string list \<Rightarrow> files \<Rightarrow> error + files" where
  "add_sectors sp mw label v [] fs = Inr fs"
| "add_sectors sp mw label v (s # rest) fs =
     on_success (read_field fs (Regridded (sp @ ''_'' @ s)) ''emiss_anthro'') (\<lambda>x.
       if mw = 0 then Inl ZeroDivisionError
       else
         on_success
           (iadd_field fs (Renamed label) v (\<lambda>t i j. x t i j * 0.975 * (unit_factor_c / mw)))
           (add_sectors sp mw label v rest))"

definition write_sector_group ::
  "files \<Rightarrow> string \<Rightarrow> real \<Rightarrow> string \<Rightarrow> string \<Rightarrow> string list \<Rightarrow> error + files" where
  "write_sector_group fs sp mw label v sectors =
     on_success (put_var fs (Renamed label) v (Var3 (\<lambda>t i j. 0)))
       (add_sectors sp mw label v sectors)"

text \<open>
  The loop over the energy and industry sectors that fills \<open>layer_values\<close> for the
  vertical file. The variable is assigned afresh (\<open>np.zeros_like\<close>) at every turn of
  the loop before the sector is added to it; before the first turn it is unbound.
\<close>

fun layer_values_loop ::
  "files \<Rightarrow> string \<Rightarrow> real \<Rightarrow> string list \<Rightarrow> field option \<Rightarrow> error + field option" where
  "layer_values_loop fs sp mw [] layer_values = Inr layer_values"
| "layer_values_loop fs sp mw (s # rest) layer_values =
     on_success (read_field fs (Regridded (sp @ ''_'' @ s)) ''emiss_anthro'') (\<lambda>x.
       if mw = 0 then Inl ZeroDivisionError
       else layer_values_loop fs sp mw rest
              (Some (\<lambda>t i j. 0 + x t i j * 0.025 * (unit_factor_c / mw) / (2 * 10 ^ 4))))"

definition vertical_levels :: "real list" where
  "vertical_levels = [0.025, 0.075, 0.125, 0.175, 0.225, 0.275, 0.325, 0.375]"

definition vertical_levels_int :: "real list" where
  "vertical_levels_int = [0, 0.05, 0.1, 0.15, 0.2, 0.25, 0.3, 0.35, 0.4]"

text \<open>\<open>var[:, lo:hi, :, :] = x[:, np.newaxis, :, :]\<close>.\<close>

definition assign_layers ::
  "files \<Rightarrow> path \<Rightarrow> string \<Rightarrow> nat \<Rightarrow> nat \<Rightarrow> field \<Rightarrow> error + files" where
  "assign_layers fs p v lo hi x =
     (case fs p of
        None \<Rightarrow> Inl FileNotFoundError
      | Some f \<Rightarrow>
          (case f v of
             None \<Rightarrow> Inl IndexError
           | Some (Var4 old) \<Rightarrow>
               put_var fs p v
                 (Var4 (\<lambda>t k i j. if lo \<le> k \<and> k < hi then x t i j else old t k i j))
           | Some _ \<Rightarrow> Inl ValueError))"

text \<open>
  The vertical file: the altitude coordinates, the variable \<open>emiss_ene_ind\<close> on
  \<open>(time, altitude, lat, lon)\<close> set to zero, the loop, and after the loop the
  assignment of \<open>layer_values\<close> to the layers \<open>3:7\<close>.
\<close>

definition write_ene_vertical ::
  "files \<Rightarrow> string \<Rightarrow> real \<Rightarrow> string \<Rightarrow> string list \<Rightarrow> error + files" where
  "write_ene_vertical fs sp mw label ene_ind =
     on_success (put_var fs (Renamed label) ''altitude'' (Levels vertical_levels)) (\<lambda>fs1.
     on_success (put_var fs1 (Renamed label) ''altitude_int'' (Levels vertical_levels_int)) (\<lambda>fs2.
     on_success (put_var fs2 (Renamed label) ''emiss_ene_ind'' (Var4 (\<lambda>t k i j. 0))) (\<lambda>fs3.
     on_success (layer_values_loop fs3 sp mw ene_ind None) (\<lambda>lv.
       case lv of
         None \<Rightarrow> Inl NameError
       | Some layer_values \<Rightarrow>
           assign_layers fs3 (Renamed label) ''emiss_ene_ind'' 3 7 layer_values))))"

text \<open>
  The sulfur files in the order of the source: the three surface groups, the energy
  and industry group, the two sulfate files, the vertical file, and the three number
  files, each a copy of a sulfate file rescaled by \<open>mw2 / mass_per_particle(rho, diam)\<close>.
\<close>

definition rename_SO2 ::
  "ncfile \<Rightarrow> string list \<Rightarrow> string list \<Rightarrow> string list \<Rightarrow> files \<Rightarrow> string \<Rightarrow> string \<Rightarrow> real
     \<Rightarrow> error + files" where
  "rename_SO2 blank ag_sol_was res_tra ene_ind fs sp model_var mw =
     (let shp = [''shp''];
          ag_ship_res = model_var @ ''_anthro-ag-ship-res'';
          ene = model_var @ ''_anthro-ene'';
          a1_ag_ship = ''so4_a1_anthro-ag-ship'';
          a2_res = ''so4_a2_anthro-res'';
          a1_vertical = ''so4_a1_anthro-ene-vertical'';
          rho = 1770;
          mw2 = 115
      in
      on_success (write_sector_group (fs(Renamed ag_ship_res \<mapsto> blank)) sp mw
                    ag_ship_res ''emiss_ag_sol_was'' ag_sol_was) (\<lambda>s1.
      on_success (write_sector_group s1 sp mw ag_ship_res ''emiss_res_tran'' res_tra) (\<lambda>s2.
      on_success (write_sector_group s2 sp mw ag_ship_res ''emiss_ship'' shp) (\<lambda>s3.
      on_success (write_sector_group (s3(Renamed ene \<mapsto> blank)) sp mw
                    ene ''emiss_ene_ind'' ene_ind) (\<lambda>s4.
      on_success (write_sector_group (s4(Renamed a1_ag_ship \<mapsto> blank)) sp mw
                    a1_ag_ship ''emiss_ag_sol_was'' ag_sol_was) (\<lambda>s5.
      on_success (write_sector_group s5 sp mw a1_ag_ship ''emiss_ship'' shp) (\<lambda>s6.
      on_success (write_sector_group (s6(Renamed a2_res \<mapsto> blank)) sp mw
                    a2_res ''emiss_res_tran'' res_tra) (\<lambda>s7.
      on_success (write_ene_vertical (s7(Renamed a1_vertical \<mapsto> blank)) sp mw
                    a1_vertical ene_ind) (\<lambda>s8.
      on_success (scaled_copy s8 a1_ag_ship ''num_so4_a1_anthro-ag-ship'' ''emiss_ag_sol_was''
                    (mw2 / mass_per_particle rho (0.134 / 10 ^ 6))) (\<lambda>s9.
      on_success (imul_var s9 (Renamed ''num_so4_a1_anthro-ag-ship'') ''emiss_ship''
                    (mw2 / mass_per_particle rho (0.261 / 10 ^ 6))) (\<lambda>s10.
      on_success (scaled_copy s10 a2_res ''num_so4_a2_anthro-res'' ''emiss_res_tran''
                    (mw2 / mass_per_particle rho (0.0504 / 10 ^ 6))) (\<lambda>s11.
        scaled_copy s11 a1_vertical ''num_so4_a1_anthro-ene-vertical'' ''emiss_ene_ind''
          (mw2 / mass_per_particle rho (0.261 / 10 ^ 6))))))))))))))"

text \<open>The sector groups of \<open>FV.rename\<close>: agriculture, solvents and waste; residential and
  transport; energy and industry.\<close>

definition FV_so2_groups :: "FV \<Rightarrow> string list \<times> string list \<times> string list" where
  "FV_so2_groups self =
     (if self_source self = ''CAMS-GLOB-ANT''
      then ((if self_version self = ''v5.3'' then [''awb'', ''swd''] else [''awb'', ''com'']),
            [''res'', ''tro'', ''tnr''],
            [''ene'', ''ind'', ''ref'', ''fef''])
      else ([''agr'', ''sol'', ''was''], [''res'', ''tra''], [''ene'', ''ind'']))"

subsection \<open>FV.rename\<close>

text \<open>
  The body of the loop of \<open>FV.rename\<close> for one tuple
  \<open>(species, model_var, mw, sf)\<close>. Sulfur dioxide takes the sector branch and nothing
  else; every other tracer gets its output file and then the derived files its name
  asks for.
\<close>

definition FV_rename_one ::
  "FV \<Rightarrow> (string \<rightharpoonup> real) \<Rightarrow> ncfile \<Rightarrow> files \<Rightarrow> species \<times> string \<times> real \<times> real
     \<Rightarrow> error + files" where
  "FV_rename_one self mw_mapping blank fs item =
     (case item of (sp, model_var, mw, sf) \<Rightarrow>
        if model_var = ''SO2'' then
          (case FV_so2_groups self of (ag_sol_was, res_tra, ene_ind) \<Rightarrow>
             rename_SO2 blank ag_sol_was res_tra ene_ind fs (py_str sp) model_var mw)
        else
          let out = model_var @ ''_anthro'' in
          on_success (write_emiss_anthro fs out blank sp mw sf) (\<lambda>fs1.
          on_success
            (if model_var = ''bc_a4''
             then scaled_copy fs1 out (''num_'' @ model_var @ ''_anthro'') ''emiss_anthro''
                    (mw / mass_per_particle 1700 (0.134 / 10 ^ 6))
             else Inr fs1) (\<lambda>fs2.
          on_success
            (if model_var = ''CO''
             then on_success
                    (scaled_copy fs2 out ''HCN_anthro'' ''emiss_anthro'' ((0.003 * mw) / 27))
                    (\<lambda>h. scaled_copy h out ''CH3CN_anthro'' ''emiss_anthro''
                            ((0.002 * mw) / 41))
             else Inr fs2) (\<lambda>fs3.
          on_success
            (if model_var = ''pom_a4''
             then on_success
                    (scaled_copy fs3 out (''num_'' @ model_var @ ''_anthro'') ''emiss_anthro''
                       (mw / mass_per_particle 1000 (0.134 / 10 ^ 6)))
                    (\<lambda>n. scaled_copy n out ''SVOC_anthro'' ''emiss_anthro'' (0.6 * mw / 310))
             else Inr fs3) (\<lambda>fs4.
          on_success
            (if model_var \<in> set [''BIGALK'', ''XYLENES'']
             then add_regridded_children mw_mapping out mw sf (sub_vars sp) fs4
             else Inr fs4) (\<lambda>fs5.
          if model_var = ''IVOC''
          then add_renamed_children mw_mapping out mw sf (sub_vars sp) fs5
          else Inr fs5))))))"

text \<open>A loop whose body may raise: the first exception ends it.\<close>

fun for_each :: "(files \<Rightarrow> 'a \<Rightarrow> error + files) \<Rightarrow> 'a list \<Rightarrow> files \<Rightarrow> error + files" where
  "for_each body [] fs = Inr fs"
| "for_each body (x # xs) fs = on_success (body fs x) (for_each body xs)"

text \<open>
  \<open>FV.rename\<close>: the tables, the lists \<open>mw_list\<close> and \<open>sf_list\<close>, the coordinates, and
  the loop over \<open>zip(self._species_mapping, self._model_var_list, mw_list, sf_list)\<close>.
\<close>

definition FV_rename ::
  "FV \<Rightarrow> (string \<rightharpoonup> real) option \<Rightarrow> (string \<rightharpoonup> real) option \<Rightarrow> files \<Rightarrow> error + files" where
  "FV_rename self mw_arg sf_arg fs =
     (let mw_mapping = (case mw_arg of None \<Rightarrow> FV_mw_mapping | Some m \<Rightarrow> m);
          sf_map = (case sf_arg of None \<Rightarrow> sf_mapping | Some m \<Rightarrow> m)
      in
      on_success (lookup_all mw_mapping (self_model_var_list self)) (\<lambda>mw_list.
      on_success (lookup_all sf_map (self_model_var_list self)) (\<lambda>sf_list.
      on_success (new_time_values (self_source self) (self_start_year self)
                    (self_end_year self)) (\<lambda>dates.
        for_each
          (FV_rename_one self mw_mapping
             (new_file (new_time_numeric dates) (date_values dates) (self_target_lon self)))
          (zip (self_species_mapping self)
             (zip (self_model_var_list self) (zip mw_list sf_list)))
          fs))))"

text \<open>Constructing the object and calling \<open>rename\<close> with the default tables.\<close>

definition FV_init_rename :: "int \<Rightarrow> FV_args \<Rightarrow> files \<Rightarrow> error + files" where
  "FV_init_rename this_year a fs =
     on_success (FV_init this_year a) (\<lambda>self. FV_rename self None None fs)"

subsection \<open>The class Rename of fv/rename.py\<close>

text \<open>
  The stand-alone renaming class. Its constructor keeps the requested list in the
  order given; its loop names the tracer \<open>varname\<close> and the inventory species
  \<open>model_var\<close>.
\<close>

record Rename_args =
  rarg_source :: string
  rarg_version :: "string option"
  rarg_start_year :: int
  rarg_end_year :: int
  rarg_start_month :: "int option"
  rarg_end_month :: "int option"
  rarg_original_resolution :: "string option"
  rarg_target_resolution :: string
  rarg_var_namelist :: "string list option"

record Rename =
  rename_source :: string
  rename_version :: string
  rename_start_year :: int
  rename_end_year :: int
  rename_start_month :: int
  rename_end_month :: int
  rename_var_namelist :: "string list"
  rename_model_var_list :: "species list"
  rename_mw_list :: "real list"
  rename_sf_list :: "real list"
  rename_target_lon :: "real list"

definition Rename_mw_mapping :: "string \<rightharpoonup> real" where
  "Rename_mw_mapping = map_of
     [(''bc_a4'', 12), (''CO'', 28), (''NH3'', 17), (''NO'', 30), (''pom_a4'', 12),
      (''SO2'', 64), (''C2H6'', 30), (''C3H8'', 44), (''C2H4'', 28), (''C3H6'', 40),
      (''C2H2'', 26), (''BIGENE'', 56), (''BENZENE'', 78), (''TOLUENE'', 92),
      (''CH2O'', 30), (''CH3CHO'', 44), (''BIGALK'', 72), (''XYLENES'', 106),
      (''CH3OH'', 32), (''C2H5OH'', 46), (''CH3COCH3'', 58), (''MEK'', 72),
      (''HCOOH'', 46), (''CH3COOH'', 60), (''IVOC'', 184)]"

definition Rename_init :: "int \<Rightarrow> Rename_args \<Rightarrow> error + Rename" where
  "Rename_init this_year a =
     (if rarg_source a \<notin> set [''CAMS-GLOB-ANT'', ''CEDS''] then Inl ValueError
      else if rarg_target_resolution a \<notin> set [''0.9x1.25''] then Inl ValueError
      else if rarg_start_year a > rarg_end_year a then Inl ValueError
      else
        let cams = (rarg_source a = ''CAMS-GLOB-ANT'');
            version = (case rarg_version a of
                         None \<Rightarrow> (if cams then ''v5.3'' else ''v2021-04-21'')
                       | Some v \<Rightarrow> v);
            original_resolution = (case rarg_original_resolution a of
                                     None \<Rightarrow> (if cams then ''0.1x0.1'' else ''0.5x0.5'')
                                   | Some r \<Rightarrow> r);
            first_year = (if cams then 2000 else 1750);
            last_year = (if cams then this_year - 1 else 2020);
            sm_month = (case rarg_start_month a of None \<Rightarrow> 1 | Some m \<Rightarrow> m);
            em_month = (case rarg_end_month a of None \<Rightarrow> 12 | Some m \<Rightarrow> m);
            requested = (case rarg_var_namelist a of
                           None \<Rightarrow> full_model_var_list | Some l \<Rightarrow> l)
        in if version \<notin> set (if cams then [''v5.3''] else [''v2021-04-21''])
          then Inl ValueError
        else if original_resolution \<notin> set (if cams then [''0.1x0.1''] else [''0.5x0.5''])
          then Inl ValueError
        else if \<not> cams \<and> rarg_end_year a > 2020 then Inl ValueError
        else if real_of_int (rarg_end_year a) + real_of_int em_month / 12
                \<le> real_of_int (rarg_start_year a) + real_of_int sm_month / 12
          then Inl ValueError
        else if rarg_start_year a < first_year then Inl ValueError
        else if rarg_end_year a > last_year then Inl ValueError
        else if filter (\<lambda>var. var \<notin> set full_model_var_list) requested \<noteq> []
          then Inl ValueError
        else
          on_success (lookup_all species_mapping requested) (\<lambda>model_vars.
          on_success (lookup_all Rename_mw_mapping requested) (\<lambda>mw_list.
          on_success (lookup_all sf_mapping requested) (\<lambda>sf_list.
            Inr \<lparr>rename_source = rarg_source a,
                 rename_version = version,
                 rename_start_year = rarg_start_year a,
                 rename_end_year = rarg_end_year a,
                 rename_start_month = sm_month,
                 rename_end_month = em_month,
                 rename_var_namelist = requested,
                 rename_model_var_list = model_vars,
                 rename_mw_list = mw_list,
                 rename_sf_list = sf_list,
                 rename_target_lon = arange 0 360 (5 / 4)\<rparr>))))"

definition Rename_so2_groups :: "string \<Rightarrow> string list \<times> string list \<times> string list" where
  "Rename_so2_groups source =
     (if source = ''CAMS-GLOB-ANT''
      then ([''awb'', ''fef'', ''swd''], [''res'', ''tro'', ''tnr''], [''ene'', ''ind'', ''ref''])
      else ([''agr'', ''sol'', ''was''], [''res'', ''tra''], [''ene'', ''ind'']))"

text \<open>The child molecular weights written out in \<open>Rename.rename\<close>.\<close>

definition BIGALK_sub_mw_mapping :: "string \<rightharpoonup> real" where
  "BIGALK_sub_mw_mapping = map_of
     [(''butanes'', 57.8), (''pentanes'', 72), (''hexanes'', 106.8), (''esters'', 104.7),
      (''ethers'', 81.5)]"

definition XYLENES_sub_mw_mapping :: "string \<rightharpoonup> real" where
  "XYLENES_sub_mw_mapping = map_of
     [(''xylene'', 106), (''trimethylbenzene'', 120), (''other-aromatics'', 126.8)]"

definition IVOC_sub_mw_mapping :: "string \<rightharpoonup> real" where
  "IVOC_sub_mw_mapping = map_of
     [(''C3H6'', 40), (''C3H8'', 44), (''C2H6'', 30), (''C2H4'', 28), (''BIGENE'', 56),
      (''BIGALK'', 72), (''CH3COCH3'', 58), (''MEK'', 72), (''CH3CHO'', 44), (''CH2O'', 30),
      (''BENZENE'', 78), (''TOLUENE'', 92), (''XYLENES'', 106)]"

text \<open>
  The body of the loop of \<open>Rename.rename\<close> for one tuple
  \<open>(varname, model_var, mw, sf)\<close>: the output file is written for every tracer, the
  sulfur files are written in addition to it.
\<close>

definition Rename_rename_one ::
  "Rename \<Rightarrow> ncfile \<Rightarrow> files \<Rightarrow> string \<times> species \<times> real \<times> real \<Rightarrow> error + files" where
  "Rename_rename_one self blank fs item =
     (case item of (varname, model_var, mw, sf) \<Rightarrow>
        let out = varname @ ''_anthro'' in
        on_success (write_emiss_anthro fs out blank model_var mw sf) (\<lambda>fs1.
        on_success
          (if varname = ''bc_a4''
           then scaled_copy fs1 out (''num_'' @ varname @ ''_anthro'') ''emiss_anthro''
                  (mw / mass_per_particle 1700 (0.134 / 10 ^ 6))
           else Inr fs1) (\<lambda>fs2.
        on_success
          (if varname = ''CO''
           then on_success
                  (scaled_copy fs2 out ''HCN_anthro'' ''emiss_anthro'' ((0.0055 * mw) / 27))
                  (\<lambda>h. scaled_copy h out ''CH3CN_anthro'' ''emiss_anthro''
                          ((0.0025 * mw) / 41))
           else Inr fs2) (\<lambda>fs3.
        on_success
          (if varname = ''pom_a4''
           then on_success
                  (scaled_copy fs3 out (''num_'' @ varname @ ''_anthro'') ''emiss_anthro''
                     (mw / mass_per_particle 1000 (0.134 / 10 ^ 6)))
                  (\<lambda>n. scaled_copy n out ''SVOC_anthro'' ''emiss_anthro'' (0.6 * mw / 310))
           else Inr fs3) (\<lambda>fs4.
        on_success
          (if varname = ''SO2''
           then (case Rename_so2_groups (rename_source self) of
                   (ag_sol_was, res_tra, ene_ind) \<Rightarrow>
                     rename_SO2 blank ag_sol_was res_tra ene_ind fs4 (py_str model_var)
                       varname mw)
           else Inr fs4) (\<lambda>fs5.
        on_success
          (if varname \<in> set [''BIGALK'', ''XYLENES'']
           then add_regridded_children
                  (if varname = ''BIGALK'' then BIGALK_sub_mw_mapping
                   else XYLENES_sub_mw_mapping)
                  out mw sf (sub_vars model_var) fs5
           else Inr fs5) (\<lambda>fs6.
        if varname = ''IVOC''
        then add_renamed_children IVOC_sub_mw_mapping out mw sf (sub_vars model_var) fs6
        else Inr fs6)))))))"

definition Rename_rename :: "Rename \<Rightarrow> files \<Rightarrow> error + files" where
  "Rename_rename self fs =
     on_success (new_time_values (rename_source self) (rename_start_year self)
                   (rename_end_year self)) (\<lambda>dates.
       for_each
         (Rename_rename_one self
            (new_file (new_time_numeric dates) (date_values dates) (rename_target_lon self)))
         (zip (rename_var_namelist self)
            (zip (rename_model_var_list self)
               (zip (rename_mw_list self) (rename_sf_list self))))
         fs)"

definition Rename_init_rename :: "int \<Rightarrow> Rename_args \<Rightarrow> files \<Rightarrow> error + files" where
  "Rename_init_rename this_year a fs =
     on_success (Rename_init this_year a) (\<lambda>self. Rename_rename self fs)"

subsection \<open>Reading results\<close>

text \<open>
  What a store holds, for stating results: the field of an inventory species'
  regridded file, the field of a tracer's renamed output file (the zero field where
  there is none), an entry of a table (zero where there is none), a four-dimensional
  variable, and whether a run has ended without an exception and left a given file.
\<close>

definition regridded_field :: "files \<Rightarrow> string \<Rightarrow> field" where
  "regridded_field fs sp =
     (case read_field fs (Regridded sp) ''emiss_anthro'' of
        Inr x \<Rightarrow> x | Inl e \<Rightarrow> (\<lambda>t i j. 0))"

definition renamed_field :: "files \<Rightarrow> string \<Rightarrow> field" where
  "renamed_field fs model_var =
     (case read_field fs (Renamed (model_var @ ''_anthro'')) ''emiss_anthro'' of
        Inr x \<Rightarrow> x | Inl e \<Rightarrow> (\<lambda>t i j. 0))"

definition table_value :: "(string \<rightharpoonup> real) \<Rightarrow> string \<Rightarrow> real" where
  "table_value m k = (case m k of Some v \<Rightarrow> v | None \<Rightarrow> 0)"

definition read_field4 :: "files \<Rightarrow> path \<Rightarrow> string \<Rightarrow> error + field4" where
  "read_field4 fs p v =
     (case fs p of
        None \<Rightarrow> Inl FileNotFoundError
      | Some f \<Rightarrow>
          (case f v of
             None \<Rightarrow> Inl KeyError
           | Some (Var4 x) \<Rightarrow> Inr x
           | Some _ \<Rightarrow> Inl ValueError))"



subsection \<open>Example inputs\<close>

text \<open>A CEDS run over 2010 with the globus download, for the given tracers.\<close>

definition ceds_2010 :: "string list \<Rightarrow> FV_args" where
  "ceds_2010 vars =
     \<lparr>arg_source = ''CEDS'', arg_version = ''v2021-04-21'',
      arg_start_year = 2010, arg_end_year = 2010,
      arg_start_month = None, arg_end_month = None,
      arg_download_method = Some ''globus'',
      arg_original_resolution = Some ''0.5x0.5'',
      arg_target_resolution = ''0.9x1.25'',
      arg_model_var_list = Some vars\<rparr>"

text \<open>A regridded file holding one constant field.\<close>

definition const_file :: "real \<Rightarrow> ncfile" where
  "const_file c = [''emiss_anthro'' \<mapsto> Var3 (\<lambda>t i j. c)]"

text \<open>
  Regridded sulfur dioxide: the eight CEDS sector files, constant 1 except industry,
  which is 0, and a file of their sum.
\<close>

definition so2_files :: files where
  "so2_files =
     [Regridded ''so2'' \<mapsto> const_file 7,
      Regridded ''so2_agr'' \<mapsto> const_file 1, Regridded ''so2_ene'' \<mapsto> const_file 1,
      Regridded ''so2_ind'' \<mapsto> const_file 0, Regridded ''so2_tra'' \<mapsto> const_file 1,
      Regridded ''so2_res'' \<mapsto> const_file 1, Regridded ''so2_sol'' \<mapsto> const_file 1,
      Regridded ''so2_was'' \<mapsto> const_file 1, Regridded ''so2_shp'' \<mapsto> const_file 1]"

text \<open>Stores of constant fields: regridded files by species, renamed files by tracer.\<close>

definition regridded_consts :: "(string \<times> real) list \<Rightarrow> files" where
  "regridded_consts xs = map_of (map (\<lambda>nc. (Regridded (fst nc), const_file (snd nc))) xs)"


text \<open>The same run requested from the class \<open>Rename\<close>.\<close>

definition rename_ceds_2010 :: "string list \<Rightarrow> Rename_args" where
  "rename_ceds_2010 vars =
     \<lparr>rarg_source = ''CEDS'', rarg_version = None,
      rarg_start_year = 2010, rarg_end_year = 2010,
      rarg_start_month = None, rarg_end_month = None,
      rarg_original_resolution = None,
      rarg_target_resolution = ''0.9x1.25'',
      rarg_var_namelist = Some vars\<rparr>"

section \<open>Properties\<close>

subsection \<open>The aggregator's window\<close>

lemma filter_sorted_window:
  fixes ds :: "('t::linorder \<times> 'v) list"
  assumes "sorted_wrt (<) (map fst ds)" and "a \<le> b" and "b < length ds"
  shows "filter (\<lambda>tv. fst (ds ! a) \<le> fst tv \<and> fst tv \<le> fst (ds ! b)) ds
         = take (b - a + 1) (drop a ds)"
proof -
  have mono: "\<And>i j. i < length ds \<Longrightarrow> j < length ds \<Longrightarrow> (fst (ds ! i) \<le> fst (ds ! j)) = (i \<le> j)"
  proof -
    fix i j assume ij: "i < length ds" "j < length ds"
    have lt: "\<And>p q. p < q \<Longrightarrow> q < length ds \<Longrightarrow> fst (ds ! p) < fst (ds ! q)"
      using assms(1) by (simp add: sorted_wrt_iff_nth_less)
    show "(fst (ds ! i) \<le> fst (ds ! j)) = (i \<le> j)"
    proof (cases "i \<le> j")
      case True
      then show ?thesis using lt[of i j] ij by (cases "i = j") auto
    next
      case False
      then show ?thesis using lt[of j i] ij by auto
    qed
  qed
  have "filter (\<lambda>tv. fst (ds ! a) \<le> fst tv \<and> fst tv \<le> fst (ds ! b)) ds
        = map (\<lambda>k. ds ! k) (filter (\<lambda>k. fst (ds ! a) \<le> fst (ds ! k) \<and> fst (ds ! k) \<le> fst (ds ! b)) [0..<length ds])"
    by (subst (3) map_nth[symmetric], simp only: filter_map o_def)
  also have "filter (\<lambda>k. fst (ds ! a) \<le> fst (ds ! k) \<and> fst (ds ! k) \<le> fst (ds ! b)) [0..<length ds]
        = filter (\<lambda>k. a \<le> k \<and> k \<le> b) [0..<length ds]"
    using assms(2,3) by (intro filter_cong refl) (auto simp: mono)
  also have "\<dots> = [a..<b + 1]"
  proof -
    have "sorted_wrt (<) (filter (\<lambda>k. a \<le> k \<and> k \<le> b) [0..<length ds])"
      by (simp add: sorted_wrt_filter)
    moreover have "set (filter (\<lambda>k. a \<le> k \<and> k \<le> b) [0..<length ds]) = set [a..<b + 1]"
      using assms(3) by auto
    ultimately show ?thesis
      by (metis sorted_wrt_upt strict_sorted_equal)
  qed
  also have "map (\<lambda>k. ds ! k) [a..<b + 1] = take (b - a + 1) (drop a ds)"
    using assms(2,3) by (auto simp: list_eq_iff_nth_eq nth_map_upt simp del: upt_Suc)
  finally show ?thesis .
qed

lemma py_getitem_nonneg:
  "0 \<le> i \<Longrightarrow> i < int (length xs) \<Longrightarrow> py_getitem xs i = Inr (xs ! nat i)"
  by (simp add: py_getitem_def)

lemma ds_var_period_window:
  fixes ds_var :: "('t::linorder \<times> 'v) list"
  assumes "sorted_wrt (<) (map fst ds_var)"
      and "0 \<le> period_start_index sy sm"
      and "period_start_index sy sm \<le> period_end_index ey em"
      and "period_end_index ey em < int (length ds_var)"
  shows "ds_var_period ds_var sy sm ey em
         = Inr (take (nat (period_end_index ey em - period_start_index sy sm + 1))
                  (drop (nat (period_start_index sy sm)) ds_var))"
proof -
  define a where "a = nat (period_start_index sy sm)"
  define b where "b = nat (period_end_index ey em)"
  have ab: "a \<le> b" "b < length ds_var"
    using assms(2-4) by (auto simp: a_def b_def)
  have ga: "py_getitem (map fst ds_var) (period_start_index sy sm) = Inr (fst (ds_var ! a))"
    using assms(2-4) ab by (simp add: py_getitem_nonneg a_def)
  have gb: "py_getitem (map fst ds_var) (period_end_index ey em) = Inr (fst (ds_var ! b))"
    using assms(2-4) ab by (simp add: py_getitem_nonneg b_def)
  have n: "nat (period_end_index ey em - period_start_index sy sm + 1) = b - a + 1"
    using assms(2-4) by (simp add: a_def b_def nat_diff_distrib nat_add_distrib)
  show ?thesis
    unfolding ds_var_period_def ga gb sel_time_slice_def n
    using filter_sorted_window[OF assms(1) ab] by (simp add: a_def)
qed

lemma ceds_file_sorted: "sorted_wrt (<) (map fst (ceds_file gs))"
proof -
  have "map fst (ceds_file gs) = map int [0..<240]"
    by (simp add: ceds_file_def o_def)
  moreover have "sorted_wrt (<) (map int [0..<240])"
    by (simp only: sorted_wrt_map) (simp add: sorted_wrt_iff_nth_less del: upt_Suc)
  ultimately show ?thesis by simp
qed

lemma length_ceds_file: "length (ceds_file gs) = 240"
  by (simp add: ceds_file_def)

lemma sum_up_var_window:
  fixes ds_var :: "('t::linorder \<times> grid list) list"
  assumes "sorted_wrt (<) (map fst ds_var)"
      and "0 \<le> period_start_index sy sm"
      and "period_start_index sy sm \<le> period_end_index ey em"
      and "period_end_index ey em < int (length ds_var)"
  shows "sum_up_var ds_var sy sm ey em
         = Inr (map (\<lambda>tv. (fst tv, sum_sector (snd tv)))
                 (take (nat (period_end_index ey em - period_start_index sy sm + 1))
                    (drop (nat (period_start_index sy sm)) ds_var)))"
  by (simp add: sum_up_var_def ds_var_period_window[OF assms])

lemma window_count:
  "period_end_index ey em - period_start_index sy sm + 1 = (ey - sy) * 12 + (em - sm) + 1"
  by (simp add: period_end_index_def period_start_index_def algebra_simps)

text \<open>
  C6 (as amended). On an opened file whose time labels increase strictly, for every
  window whose start index \<open>(start_year - 2000) * 12 + start_month - 1\<close> is not
  negative, whose end index \<open>(end_year - 2000) * 12 + end_month - 1\<close> is a position
  of the file's time axis, and whose start index is not after its end index, the
  aggregator returns the time steps at exactly the positions from the start index to
  the end index, both included, each summed over its sectors; the summed field has
  \<open>(end_year - start_year) * 12 + (end_month - start_month) + 1\<close> time steps.
\<close>

theorem sum_up_selects_window:
  fixes ds_var :: "('t::linorder \<times> grid list) list"
  assumes "sorted_wrt (<) (map fst ds_var)"
      and "0 \<le> period_start_index sy sm"
      and "period_start_index sy sm \<le> period_end_index ey em"
      and "period_end_index ey em < int (length ds_var)"
  shows "\<exists>out. sum_up_var ds_var sy sm ey em = Inr out
           \<and> out = map (\<lambda>k. (fst (ds_var ! k), sum_sector (snd (ds_var ! k))))
                     [nat (period_start_index sy sm)..<nat (period_end_index ey em) + 1]
           \<and> int (length out) = (ey - sy) * 12 + (em - sm) + 1"
proof -
  let ?a = "nat (period_start_index sy sm)" and ?b = "nat (period_end_index ey em)"
  let ?n = "nat (period_end_index ey em - period_start_index sy sm + 1)"
  have n: "?n = ?b - ?a + 1"
    using assms(2-4) by (simp add: nat_diff_distrib nat_add_distrib)
  have ab: "?a \<le> ?b" "?b < length ds_var"
    using assms(2-4) by auto
  have win: "take ?n (drop ?a ds_var) = map (\<lambda>k. ds_var ! k) [?a..<?b + 1]"
    unfolding n using ab
    by (auto simp: list_eq_iff_nth_eq nth_map_upt simp del: upt_Suc)
  have len: "int (length [?a..<?b + 1]) = (ey - sy) * 12 + (em - sm) + 1"
    using assms(2-4) window_count[of ey em sy sm] by (simp del: upt_Suc)
  show ?thesis
    unfolding sum_up_var_window[OF assms] win using len
    by (simp add: o_def del: upt_Suc)
qed

text \<open>
  The two windows of the specification, on the 240 monthly steps of the inventory
  file: January to December 2010, and June 2010 to May 2011, give 12 steps each.
\<close>

theorem sum_up_selects_window_witness:
  "sorted_wrt (<) (map fst (ceds_file [\<lambda>i j. 1, \<lambda>i j. 2]))
   \<and> 0 \<le> period_start_index 2010 6
   \<and> period_start_index 2010 6 \<le> period_end_index 2011 5
   \<and> period_end_index 2011 5 < int (length (ceds_file [\<lambda>i j. 1, \<lambda>i j. 2]))
   \<and> (\<exists>out. sum_up_var (ceds_file [\<lambda>i j. 1, \<lambda>i j. 2]) 2010 6 2011 5 = Inr out
          \<and> int (length out) = 12)
   \<and> (\<exists>out. sum_up_var (ceds_file [\<lambda>i j. 1, \<lambda>i j. 2]) 2010 1 2010 12 = Inr out
          \<and> int (length out) = 12)"
proof -
  let ?ds = "ceds_file [\<lambda>i j. 1, \<lambda>i j. 2]"
  have h1: "sorted_wrt (<) (map fst ?ds)" by (rule ceds_file_sorted)
  have h2: "0 \<le> period_start_index 2010 6" "0 \<le> period_start_index 2010 1"
    by (simp_all add: period_start_index_def)
  have h3: "period_start_index 2010 6 \<le> period_end_index 2011 5"
           "period_start_index 2010 1 \<le> period_end_index 2010 12"
    by (simp_all add: period_start_index_def period_end_index_def)
  have h4: "period_end_index 2011 5 < int (length ?ds)"
           "period_end_index 2010 12 < int (length ?ds)"
    by (simp_all add: period_end_index_def length_ceds_file)
  from sum_up_selects_window[OF h1 h2(1) h3(1) h4(1)]
  have a: "\<exists>out. sum_up_var ?ds 2010 6 2011 5 = Inr out \<and> int (length out) = 12"
    by auto
  from sum_up_selects_window[OF h1 h2(2) h3(2) h4(2)]
  have b: "\<exists>out. sum_up_var ?ds 2010 1 2010 12 = Inr out \<and> int (length out) = 12"
    by auto
  show ?thesis using h1 h2(1) h3(1) h4(1) a b by blast
qed

text \<open>
  C6 as stated fails before the epoch. The constructor accepts the CEDS window from
  January 1999 to December 2000 (with the globus download the first year is 1750);
  the start index is \<open>-12\<close>, which Python reads from the end of the axis (the label of
  January 2019), so the slice from that label to the label of December 2000 is empty:
  no time step is selected, where the claim says 24.
\<close>

theorem sum_up_window_counterexample:
  "FV_init_sum_up 2026
     \<lparr>arg_source = ''CEDS'', arg_version = ''v2021-04-21'',
      arg_start_year = 1999, arg_end_year = 2000,
      arg_start_month = None, arg_end_month = None,
      arg_download_method = Some ''globus'',
      arg_original_resolution = Some ''0.5x0.5'',
      arg_target_resolution = ''0.9x1.25'',
      arg_model_var_list = Some [''CO'']\<rparr>
     (ceds_file [\<lambda>i j. 1, \<lambda>i j. 2]) = Inr []
   \<and> (2000 - 1999) * 12 + (12 - 1) + 1 \<noteq> int (length ([] :: (int \<times> grid) list))"
proof -
  let ?ds = "ceds_file [\<lambda>i j. 1, \<lambda>i j. 2]"
  have g0: "py_getitem (map fst ?ds) (- 12) = Inr 228"
    by (simp add: py_getitem_def ceds_file_def o_def del: upt_Suc)
  have g1: "py_getitem (map fst ?ds) 11 = Inr 11"
    by (simp add: py_getitem_def ceds_file_def o_def del: upt_Suc)
  have sl: "sel_time_slice ?ds 228 11 = []"
    by (auto simp: sel_time_slice_def filter_empty_conv)
  have "sum_up_var ?ds 1999 1 2000 12 = Inr []"
    by (simp add: sum_up_var_def ds_var_period_def period_start_index_def
          period_end_index_def g0 g1 sl)
  then show ?thesis
    by (simp add: FV_init_sum_up_def FV_init_def FV_sum_up_def species_mapping_def
          full_model_var_list_def Let_def)
qed

subsection \<open>The longitude alignment\<close>

lemma arange_bounds:
  assumes "0 < step" and "x \<in> set (arange 0 360 step)"
  shows "0 \<le> x \<and> x < 360"
proof -
  from assms(2) obtain i where i: "i < nat \<lceil>360 / step\<rceil>" and x: "x = real i * step"
    by (auto simp: arange_def)
  from i have "int i < \<lceil>360 / step\<rceil>" by simp
  then have "real i < 360 / step" by (simp add: less_ceiling_iff)
  then have "real i * step < 360" using assms(1) by (simp add: pos_less_divide_eq)
  then show ?thesis using assms(1) x by simp
qed

lemma arange_sorted:
  assumes "0 < step"
  shows "sorted_wrt (<) (arange start stop step)"
  unfolding arange_def sorted_wrt_map
  using assms by (simp add: sorted_wrt_iff_nth_less del: upt_Suc)

lemma length_roll: "length (roll k xs) = length xs"
  by (simp add: roll_def)

lemma FV_init_original_lon:
  assumes "FV_init this_year a = Inr self"
  shows "self_original_lon self = arange 0 360 (grid_spacing (self_original_resolution self))"
    and "0 < grid_spacing (self_original_resolution self)"
  using assms
  by (auto simp: FV_init_def Let_def grid_spacing_def split: if_splits sum.splits)

text \<open>
  The alignment returns whenever the field has as many longitude positions as the
  source grid; the data are then the rolled columns.
\<close>

lemma rolled_source_ds_returns:
  assumes "length (cols ds) = length original_lon"
  shows "rolled_source_ds nlon original_lon ds
         = Inr \<lparr>lon = original_lon, cols = roll nlon (cols ds)\<rparr>"
  using assms by (simp add: rolled_source_ds_def Let_def length_roll)

text \<open>
  C7. For an object the constructor has built, every field that comes out of the
  roll by \<open>nlon\<close>, the plus-360 remapping of negative longitudes and the coordinate
  reassignment carries the longitude coordinate \<open>arange(0, 360, grid_spacing)\<close>; all
  its values lie in \<open>[0, 360)\<close> and they increase strictly.
\<close>

theorem rolled_longitudes_canonical:
  assumes "FV_init this_year a = Inr self"
      and "FV_rolled_source_ds self ds = Inr out"
  shows "lon out = arange 0 360 (grid_spacing (self_original_resolution self))
         \<and> (\<forall>x \<in> set (lon out). 0 \<le> x \<and> x < 360)
         \<and> sorted_wrt (<) (lon out)"
proof -
  let ?gs = "grid_spacing (self_original_resolution self)"
  from assms(2) have "lon out = self_original_lon self"
    by (auto simp: FV_rolled_source_ds_def rolled_source_ds_def Let_def split: if_splits)
  then have eq: "lon out = arange 0 360 ?gs"
    using FV_init_original_lon(1)[OF assms(1)] by simp
  have pos: "0 < ?gs" by (rule FV_init_original_lon(2)[OF assms(1)])
  show ?thesis
    using eq arange_bounds[OF pos] arange_sorted[OF pos] by simp
qed

text \<open>
  A CEDS field on the half-degree grid, stored from \<open>-179.75\<close> to \<open>179.75\<close> degrees
  east in 720 columns.
\<close>

theorem rolled_longitudes_canonical_witness:
  "\<exists>self out.
     FV_init 2026
       \<lparr>arg_source = ''CEDS'', arg_version = ''v2021-04-21'',
        arg_start_year = 2010, arg_end_year = 2011,
        arg_start_month = Some 6, arg_end_month = Some 5,
        arg_download_method = Some ''globus'',
        arg_original_resolution = Some ''0.5x0.5'',
        arg_target_resolution = ''0.9x1.25'',
        arg_model_var_list = Some [''CO'']\<rparr> = Inr self
     \<and> FV_rolled_source_ds self
          \<lparr>lon = map (\<lambda>k. real k / 2 - 179.75) [0..<720],
           cols = map (\<lambda>k. real k) [0..<720]\<rparr> = Inr out
     \<and> lon out = arange 0 360 (1 / 2)
     \<and> (\<forall>x \<in> set (lon out). 0 \<le> x \<and> x < 360)
     \<and> sorted_wrt (<) (lon out)"
proof -
  let ?a = "\<lparr>arg_source = ''CEDS'', arg_version = ''v2021-04-21'',
        arg_start_year = 2010, arg_end_year = 2011,
        arg_start_month = Some 6, arg_end_month = Some 5,
        arg_download_method = Some ''globus'',
        arg_original_resolution = Some ''0.5x0.5'',
        arg_target_resolution = ''0.9x1.25'',
        arg_model_var_list = Some [''CO'']\<rparr>"
  let ?ds = "\<lparr>lon = map (\<lambda>k. real k / 2 - 179.75) [0..<720],
           cols = map (\<lambda>k. real k) [0..<720]\<rparr>"
  obtain self where init: "FV_init 2026 ?a = Inr self"
    by (simp add: FV_init_def species_mapping_def full_model_var_list_def Let_def)
  have res: "self_original_resolution self = ''0.5x0.5''" and src: "self_source self = ''CEDS''"
    using init
    by (auto simp: FV_init_def species_mapping_def full_model_var_list_def Let_def)
  have gs: "grid_spacing (self_original_resolution self) = 1 / 2"
    by (simp add: res grid_spacing_def)
  have olon: "self_original_lon self = arange 0 360 (1 / 2)"
    using FV_init_original_lon(1)[OF init] gs by simp
  have len: "length (cols ?ds) = length (self_original_lon self)"
    by (simp add: olon arange_def)
  obtain out where out: "FV_rolled_source_ds self ?ds = Inr out"
    using rolled_source_ds_returns[OF len] by (simp add: FV_rolled_source_ds_def)
  from rolled_longitudes_canonical[OF init out] gs init out
  show ?thesis by auto
qed

subsection \<open>The time and date coordinates of the renamed files\<close>

lemma length_new_time_values:
  assumes "new_time_values source start_year end_year = Inr ds"
  shows "int (length ds) = 12 * (end_year - start_year + 1)"
  using assms
  by (auto simp: new_time_values_def date_range_MS_def periods_def
           split: if_splits sum.splits)

text \<open>
  C5, evaluated on the window from June 2010 to May 2011 (CAMS-GLOB-ANT). The
  constructor accepts the window. The coordinates written by \<open>rename\<close> do not read the
  two months: they hold 24 entries, from 1 January 2010 (day 3650 of the no-leap
  calendar since 2000) to 1 December 2011, where the window has 12 months from
  June 2010 to May 2011.
\<close>

theorem rename_time_axis_whole_years:
  "(\<exists>self. FV_init 2026
       \<lparr>arg_source = ''CAMS-GLOB-ANT'', arg_version = ''v5.3'',
        arg_start_year = 2010, arg_end_year = 2011,
        arg_start_month = Some 6, arg_end_month = Some 5,
        arg_download_method = None,
        arg_original_resolution = Some ''0.1x0.1'',
        arg_target_resolution = ''0.9x1.25'',
        arg_model_var_list = Some [''CO'']\<rparr> = Inr self
      \<and> self_start_month self = 6 \<and> self_end_month self = 5)
   \<and> (\<exists>ds. new_time_values ''CAMS-GLOB-ANT'' 2010 2011 = Inr ds
         \<and> length ds = 24
         \<and> hd (date_values ds) = 20100101 \<and> last (date_values ds) = 20111201
         \<and> hd (new_time_numeric ds) = 3650)"
proof -
  have a: "\<exists>self. FV_init 2026
       \<lparr>arg_source = ''CAMS-GLOB-ANT'', arg_version = ''v5.3'',
        arg_start_year = 2010, arg_end_year = 2011,
        arg_start_month = Some 6, arg_end_month = Some 5,
        arg_download_method = None,
        arg_original_resolution = Some ''0.1x0.1'',
        arg_target_resolution = ''0.9x1.25'',
        arg_model_var_list = Some [''CO'']\<rparr> = Inr self
      \<and> self_start_month self = 6 \<and> self_end_month self = 5"
    by (simp add: FV_init_def species_mapping_def full_model_var_list_def Let_def)
  have upt24: "[0..<24] = [0,1,2,3,4,5,6,7,8,9,10,11,12,13,14,15,16,17,18,19,20,21,22,23]"
    by (simp add: upt_rec)
  have b: "\<exists>ds. new_time_values ''CAMS-GLOB-ANT'' 2010 2011 = Inr ds
         \<and> length ds = 24
         \<and> hd (date_values ds) = 20100101 \<and> last (date_values ds) = 20111201
         \<and> hd (new_time_numeric ds) = 3650"
    by (simp add: new_time_values_def date_range_MS_def periods_def upt24 date_values_def
          yyyymmdd_def new_time_numeric_def date2num_noleap_def days_before_month_def)
  show ?thesis using a b by blast
qed

subsection \<open>Unit conversion of a single species\<close>

lemma on_success_Inl [simp]: "on_success (Inl e) k = Inl e"
  by (simp add: on_success_def)

lemma on_success_Inr [simp]: "on_success (Inr x) k = k x"
  by (simp add: on_success_def)

lemma on_success_eq_Inr:
  "on_success r k = Inr y \<longleftrightarrow> (\<exists>x. r = Inr x \<and> k x = Inr y)"
  by (cases r) auto

lemma read_field_cong: "fs p = fs' p \<Longrightarrow> read_field fs p v = read_field fs' p v"
  by (simp add: read_field_def)

lemma put_var_Inr:
  "put_var fs p v x = Inr fs' \<longleftrightarrow> (\<exists>f. fs p = Some f \<and> fs' = fs(p \<mapsto> f(v \<mapsto> x)))"
  by (auto simp: put_var_def split: option.splits)

lemma write_emiss_anthro_Single:
  assumes "write_emiss_anthro fs label blank (Single s) mw sf = Inr fs1"
  shows "\<exists>x. read_field fs (Regridded s) ''emiss_anthro'' = Inr x \<and> mw \<noteq> 0
           \<and> fs1 = fs(Renamed label \<mapsto>
                 blank(''emiss_anthro'' \<mapsto> Var3 (\<lambda>t i j. x t i j * (unit_factor_c / mw) * sf)))"
proof -
  have rd: "read_field (fs(Renamed label \<mapsto> blank)) (Regridded s) ''emiss_anthro''
            = read_field fs (Regridded s) ''emiss_anthro''"
    by (rule read_field_cong) simp
  from assms show ?thesis
    unfolding write_emiss_anthro_def Let_def species.case rd
    by (auto simp: on_success_eq_Inr put_var_Inr split: if_splits)
qed

lemma write_emiss_anthro_Multi:
  "write_emiss_anthro fs label blank (Multi cs) mw sf
   = Inr (fs(Renamed label \<mapsto> blank(''emiss_anthro'' \<mapsto> Var3 (\<lambda>t i j. 0))))"
  by (simp add: write_emiss_anthro_def put_var_def)

lemma scaled_copy_frame:
  assumes "scaled_copy fs src dst v c = Inr fs'" and "p \<noteq> Renamed dst"
  shows "fs' p = fs p"
  using assms
  by (auto simp: scaled_copy_def on_success_eq_Inr copy_file_def imul_var_def put_var_Inr
           split: option.splits ncvar.splits)

lemma species_mapping_composites:
  "species_mapping ''BIGALK'' = Some (Multi [''butanes'', ''pentanes'', ''hexanes'', ''esters'', ''ethers''])"
  "species_mapping ''XYLENES'' = Some (Multi [''xylene'', ''trimethylbenzene'', ''other-aromatics''])"
  "species_mapping ''IVOC'' = Some (Multi [''C3H6'', ''C3H8'', ''C2H6'', ''C2H4'', ''BIGENE'', ''BIGALK'',
                        ''CH3COCH3'', ''MEK'', ''CH3CHO'', ''CH2O'', ''BENZENE'',
                        ''TOLUENE'', ''XYLENES''])"
  by (simp_all add: species_mapping_def)

lemma single_not_composite:
  assumes "species_mapping model_var = Some (Single s)"
  shows "model_var \<noteq> ''BIGALK''" and "model_var \<noteq> ''XYLENES''" and "model_var \<noteq> ''IVOC''"
  using assms species_mapping_composites by auto

lemma num_label_differs: "Renamed (m @ a) \<noteq> Renamed (''num_'' @ m @ a)"
proof
  assume "Renamed (m @ a) = Renamed (''num_'' @ m @ a)"
  then have "length (m @ a) = length (''num_'' @ m @ a)" by simp
  then show False by simp
qed




subsection \<open>The composite loops\<close>

lemma iadd_field_Inr:
  assumes "iadd_field fs p v x = Inr fs2"
  shows "\<exists>acc f. read_field fs p v = Inr acc \<and> fs p = Some f
           \<and> fs2 = fs(p \<mapsto> f(v \<mapsto> Var3 (\<lambda>t i j. acc t i j + x t i j)))"
  using assms
  by (cases "read_field fs p v") (auto simp: iadd_field_def put_var_Inr)

lemma read_field_upd_same: "read_field (fs(p \<mapsto> f(v \<mapsto> Var3 y))) p v = Inr y"
  by (simp add: read_field_def)

lemma read_field_upd_other: "q \<noteq> p \<Longrightarrow> read_field (fs(p \<mapsto> g)) q v = read_field fs q v"
  by (simp add: read_field_def)

lemma regridded_field_upd: "regridded_field (fs(Renamed l \<mapsto> g)) c = regridded_field fs c"
  by (simp add: regridded_field_def read_field_upd_other)

lemma renamed_field_upd:
  "c @ ''_anthro'' \<noteq> l \<Longrightarrow> renamed_field (fs(Renamed l \<mapsto> g)) c = renamed_field fs c"
  by (simp add: renamed_field_def read_field_upd_other)

lemma add_regridded_children_result:
  assumes "add_regridded_children m label mw sf cs fs = Inr fs'"
      and "read_field fs (Renamed label) ''emiss_anthro'' = Inr acc"
  shows "read_field fs' (Renamed label) ''emiss_anthro''
         = Inr (\<lambda>t i j. acc t i j
                  + (\<Sum>c\<leftarrow>cs. regridded_field fs c t i j * (table_value m c / mw)
                                 * (unit_factor_c / table_value m c) * sf))
         \<and> (\<forall>c \<in> set cs. (\<exists>x. read_field fs (Regridded c) ''emiss_anthro'' = Inr x)
                           \<and> (\<exists>w. m c = Some w \<and> w \<noteq> 0) \<and> mw \<noteq> 0)"
  using assms
proof (induction cs arbitrary: fs acc)
  case Nil
  then show ?case by simp
next
  case (Cons c cs)
  from Cons.prems(1) obtain w where w: "m c = Some w"
    by (auto split: option.splits)
  from Cons.prems(1) w obtain x fs2 where
    x: "read_field fs (Regridded c) ''emiss_anthro'' = Inr x"
    and nz: "mw \<noteq> 0" "w \<noteq> 0"
    and add: "iadd_field fs (Renamed label) ''emiss_anthro''
                (\<lambda>t i j. x t i j * (w / mw) * (unit_factor_c / w) * sf) = Inr fs2"
    and rest: "add_regridded_children m label mw sf cs fs2 = Inr fs'"
    by (auto simp: on_success_eq_Inr split: if_splits)
  from iadd_field_Inr[OF add] Cons.prems(2) obtain f where
    fs2: "fs2 = fs(Renamed label \<mapsto> f(''emiss_anthro'' \<mapsto>
            Var3 (\<lambda>t i j. acc t i j + x t i j * (w / mw) * (unit_factor_c / w) * sf)))"
    by auto
  have acc2: "read_field fs2 (Renamed label) ''emiss_anthro''
              = Inr (\<lambda>t i j. acc t i j + x t i j * (w / mw) * (unit_factor_c / w) * sf)"
    unfolding fs2 by (rule read_field_upd_same)
  have rf: "\<And>c'. regridded_field fs2 c' = regridded_field fs c'"
    unfolding fs2 by (rule regridded_field_upd)
  have rd: "\<And>c'. read_field fs2 (Regridded c') ''emiss_anthro''
                 = read_field fs (Regridded c') ''emiss_anthro''"
    unfolding fs2 by (rule read_field_upd_other) simp
  have xc: "regridded_field fs c = x"
    by (simp add: regridded_field_def x)
  from Cons.IH[OF rest acc2]
  show ?case
    by (simp add: rf rd xc x w nz table_value_def add.assoc)
qed

lemma add_renamed_children_result:
  assumes "add_renamed_children m label mw sf cs fs = Inr fs'"
      and "read_field fs (Renamed label) ''emiss_anthro'' = Inr acc"
      and "\<forall>c \<in> set cs. c @ ''_anthro'' \<noteq> label"
  shows "read_field fs' (Renamed label) ''emiss_anthro''
         = Inr (\<lambda>t i j. acc t i j
                  + (\<Sum>c\<leftarrow>cs. renamed_field fs c t i j * (table_value m c / mw) * sf))
         \<and> (\<forall>c \<in> set cs.
               (\<exists>x. read_field fs (Renamed (c @ ''_anthro'')) ''emiss_anthro'' = Inr x)
               \<and> (\<exists>w. m c = Some w) \<and> mw \<noteq> 0)"
  using assms
proof (induction cs arbitrary: fs acc)
  case Nil
  then show ?case by simp
next
  case (Cons c cs)
  from Cons.prems(1) obtain w where w: "m c = Some w"
    by (auto split: option.splits)
  from Cons.prems(1) w obtain x fs2 where
    x: "read_field fs (Renamed (c @ ''_anthro'')) ''emiss_anthro'' = Inr x"
    and nz: "mw \<noteq> 0"
    and add: "iadd_field fs (Renamed label) ''emiss_anthro''
                (\<lambda>t i j. x t i j * (w / mw) * sf) = Inr fs2"
    and rest: "add_renamed_children m label mw sf cs fs2 = Inr fs'"
    by (auto simp: on_success_eq_Inr split: if_splits)
  from iadd_field_Inr[OF add] Cons.prems(2) obtain f where
    fs2: "fs2 = fs(Renamed label \<mapsto> f(''emiss_anthro'' \<mapsto>
            Var3 (\<lambda>t i j. acc t i j + x t i j * (w / mw) * sf)))"
    by auto
  have acc2: "read_field fs2 (Renamed label) ''emiss_anthro''
              = Inr (\<lambda>t i j. acc t i j + x t i j * (w / mw) * sf)"
    unfolding fs2 by (rule read_field_upd_same)
  have rf: "\<And>c'. c' \<in> set cs \<Longrightarrow> renamed_field fs2 c' = renamed_field fs c'"
    unfolding fs2 using Cons.prems(3) by (intro renamed_field_upd) simp
  have rd: "\<And>c'. c' \<in> set cs \<Longrightarrow> read_field fs2 (Renamed (c' @ ''_anthro'')) ''emiss_anthro''
                 = read_field fs (Renamed (c' @ ''_anthro'')) ''emiss_anthro''"
    unfolding fs2 using Cons.prems(3) by (intro read_field_upd_other) simp
  have xc: "renamed_field fs c = x"
    by (simp add: renamed_field_def x)
  have others: "\<forall>c \<in> set cs. c @ ''_anthro'' \<noteq> label"
    using Cons.prems(3) by simp
  have sums: "(\<Sum>c\<leftarrow>cs. renamed_field fs2 c t i j * (table_value m c / mw) * sf)
              = (\<Sum>c\<leftarrow>cs. renamed_field fs c t i j * (table_value m c / mw) * sf)" for t i j
    by (rule arg_cong[where f=sum_list], rule map_cong) (simp_all add: rf)
  note ih = Cons.IH[OF rest acc2 others]
  have eq: "(\<lambda>t i j. (acc t i j + x t i j * (w / mw) * sf)
                + (\<Sum>c\<leftarrow>cs. renamed_field fs2 c t i j * (table_value m c / mw) * sf))
            = (\<lambda>t i j. acc t i j
                + (\<Sum>c\<leftarrow>c # cs. renamed_field fs c t i j * (table_value m c / mw) * sf))"
    by (intro ext) (simp only: sums, simp add: xc w table_value_def add.assoc)
  have part1: "read_field fs' (Renamed label) ''emiss_anthro''
         = Inr (\<lambda>t i j. acc t i j
                  + (\<Sum>c\<leftarrow>c # cs. renamed_field fs c t i j * (table_value m c / mw) * sf))"
    using ih eq by simp
  have part2: "\<forall>c' \<in> set (c # cs).
               (\<exists>x. read_field fs (Renamed (c' @ ''_anthro'')) ''emiss_anthro'' = Inr x)
               \<and> (\<exists>w. m c' = Some w) \<and> mw \<noteq> 0"
    using ih x w nz rd by auto
  show ?case using part1 part2 by blast
qed

lemma on_success_Inr_id [simp]: "on_success r Inr = r"
  by (cases r) simp_all

lemma FV_first_tier_run:
  assumes "model_var = ''BIGALK'' \<or> model_var = ''XYLENES''"
      and "FV_rename_one self mw_mapping blank fs (Multi children, model_var, mw, sf) = Inr fs'"
  shows "add_regridded_children mw_mapping (model_var @ ''_anthro'') mw sf children
           (fs(Renamed (model_var @ ''_anthro'') \<mapsto>
                 blank(''emiss_anthro'' \<mapsto> Var3 (\<lambda>t i j. 0)))) = Inr fs'"
  using assms
  by (auto simp: FV_rename_one_def write_emiss_anthro_Multi sub_vars_def Let_def)


lemma first_tier_output:
  assumes "model_var = ''BIGALK'' \<or> model_var = ''XYLENES''"
      and "FV_rename_one self mw_mapping blank fs (Multi children, model_var, mw, sf) = Inr fs'"
  shows "read_field fs' (Renamed (model_var @ ''_anthro'')) ''emiss_anthro''
         = Inr (\<lambda>t i j. 0
                  + (\<Sum>c\<leftarrow>children. regridded_field fs c t i j * (table_value mw_mapping c / mw)
                                 * (unit_factor_c / table_value mw_mapping c) * sf))
         \<and> (\<forall>c \<in> set children. (\<exists>x. read_field fs (Regridded c) ''emiss_anthro'' = Inr x)
                           \<and> (\<exists>w. mw_mapping c = Some w \<and> w \<noteq> 0) \<and> mw \<noteq> 0)"
proof -
  let ?out = "model_var @ ''_anthro''"
  let ?fs1 = "fs(Renamed ?out \<mapsto> blank(''emiss_anthro'' \<mapsto> Var3 (\<lambda>t i j. 0)))"
  have acc: "read_field ?fs1 (Renamed ?out) ''emiss_anthro'' = Inr (\<lambda>t i j. 0)"
    by (rule read_field_upd_same)
  have rd: "\<And>c. read_field ?fs1 (Regridded c) ''emiss_anthro''
                = read_field fs (Regridded c) ''emiss_anthro''"
    by (rule read_field_upd_other) simp
  from add_regridded_children_result[OF FV_first_tier_run[OF assms] acc]
  show ?thesis
    by (simp add: regridded_field_upd rd)
qed


text \<open>
  The two lemmas that follow are statements about the exact real arithmetic in which
  this development reads the fields and the tables. There the child weight drops out
  of \<open>(sub_mw / mw) * (unit_factor / sub_mw)\<close>. The source evaluates the two
  quotients and the products in binary floating point, each one rounded, and a very
  small table entry overflows \<open>unit_factor / sub_mw\<close>; what it stores can therefore
  differ from one child weight to another, and nothing here describes that.
\<close>

lemma cancel_child_weight:
  assumes "w \<noteq> (0::real)" and "mw \<noteq> 0"
  shows "x * (w / mw) * (u / w) * sf = u / mw * sf * x"
  using assms by (simp add: field_simps)

lemma first_tier_closed_form:
  assumes "model_var = ''BIGALK'' \<or> model_var = ''XYLENES''"
      and "FV_rename_one self mw_mapping blank fs (Multi children, model_var, mw, sf) = Inr fs'"
  shows "read_field fs' (Renamed (model_var @ ''_anthro'')) ''emiss_anthro''
         = Inr (\<lambda>t i j. unit_factor_c / mw * sf * (\<Sum>c\<leftarrow>children. regridded_field fs c t i j))"
proof -
  note out = first_tier_output[OF assms]
  have nz1: "\<And>c. c \<in> set children \<Longrightarrow> table_value mw_mapping c \<noteq> 0"
    using out by (auto simp: table_value_def)
  have nz2: "\<And>c. c \<in> set children \<Longrightarrow> mw \<noteq> 0"
    using out by auto
  have "(\<Sum>c\<leftarrow>children. regridded_field fs c t i j * (table_value mw_mapping c / mw)
                                 * (unit_factor_c / table_value mw_mapping c) * sf)
        = (\<Sum>c\<leftarrow>children. unit_factor_c / mw * sf * regridded_field fs c t i j)" for t i j
    by (rule arg_cong[where f=sum_list], rule map_cong)
       (simp_all add: cancel_child_weight nz1 nz2)
  then have "(\<lambda>t i j. 0 + (\<Sum>c\<leftarrow>children. regridded_field fs c t i j * (table_value mw_mapping c / mw)
                                 * (unit_factor_c / table_value mw_mapping c) * sf))
        = (\<lambda>t i j. unit_factor_c / mw * sf * (\<Sum>c\<leftarrow>children. regridded_field fs c t i j))"
    by (simp only: sum_list_const_mult add_0)
  with out show ?thesis by simp
qed








subsection \<open>The vertical sulfate file\<close>

text \<open>
  The loop over the energy and industry sectors keeps the last sector only, and so
  does the file: the layers 3 to 6 hold the last sector's field times
  \<open>0.025 * (unit_factor / mw) / 2e4\<close>, every other layer holds zero.
\<close>

lemma layer_values_loop_last:
  assumes "layer_values_loop fs sp mw (ss @ [s]) lv = Inr r"
  shows "r = Some (\<lambda>t i j. 0 + regridded_field fs (sp @ ''_'' @ s) t i j * 0.025
                              * (unit_factor_c / mw) / (2 * 10 ^ 4))"
  using assms
proof (induction ss arbitrary: lv)
  case Nil
  then show ?case
    by (auto simp: on_success_eq_Inr regridded_field_def split: if_splits)
next
  case (Cons a ss)
  then show ?case
    by (auto simp: on_success_eq_Inr split: if_splits)
qed

lemma write_ene_vertical_result:
  assumes "write_ene_vertical fs sp mw label (ss @ [s]) = Inr fs'"
  shows "read_field4 fs' (Renamed label) ''emiss_ene_ind''
         = Inr (\<lambda>t k i j. if 3 \<le> k \<and> k < 7
                          then 0 + regridded_field fs (sp @ ''_'' @ s) t i j * 0.025
                                   * (unit_factor_c / mw) / (2 * 10 ^ 4)
                          else 0)"
proof -
  from assms obtain fs1 fs2 fs3 lv where
    p1: "put_var fs (Renamed label) ''altitude'' (Levels vertical_levels) = Inr fs1"
    and p2: "put_var fs1 (Renamed label) ''altitude_int'' (Levels vertical_levels_int) = Inr fs2"
    and p3: "put_var fs2 (Renamed label) ''emiss_ene_ind'' (Var4 (\<lambda>t k i j. 0)) = Inr fs3"
    and lp: "layer_values_loop fs3 sp mw (ss @ [s]) None = Inr lv"
    and fin: "(case lv of None \<Rightarrow> Inl NameError
               | Some layer_values \<Rightarrow>
                   assign_layers fs3 (Renamed label) ''emiss_ene_ind'' 3 7 layer_values) = Inr fs'"
    unfolding write_ene_vertical_def on_success_eq_Inr by blast
  from p1 p2 p3 obtain f where
    f3: "fs3 (Renamed label) = Some (f(''emiss_ene_ind'' \<mapsto> Var4 (\<lambda>t k i j. 0)))"
    and other: "\<And>q. q \<noteq> Renamed label \<Longrightarrow> fs3 q = fs q"
    by (auto simp: put_var_Inr)
  have rf: "regridded_field fs3 c = regridded_field fs c" for c
    by (simp add: regridded_field_def read_field_def other)
  from layer_values_loop_last[OF lp]
  have lv: "lv = Some (\<lambda>t i j. 0 + regridded_field fs (sp @ ''_'' @ s) t i j * 0.025
                              * (unit_factor_c / mw) / (2 * 10 ^ 4))"
    by (simp only: rf)
  from fin show ?thesis
    unfolding lv option.case
    by (auto simp: assign_layers_def f3 put_var_Inr read_field4_def fun_eq_iff)
qed


text \<open>
  C4, evaluated on CEDS sector fields that are 1 for energy and 0 for industry.
  The run ends without an exception. In layer 3 the vertical variable holds the
  industry term alone, which is 0; the sum over both sectors of the group is
  \<open>0.025 * (unit_factor / 64) / 2e4\<close>, which is not 0. The layers 0 and 7, outside
  the band, hold zero.
\<close>

theorem vertical_holds_last_sector_only:
  "\<exists>fs' y.
     FV_init_rename 2026 (ceds_2010 [''SO2'']) so2_files = Inr fs'
     \<and> read_field4 fs' (Renamed ''so4_a1_anthro-ene-vertical'') ''emiss_ene_ind'' = Inr y
     \<and> y 0 3 0 0 = regridded_field so2_files ''so2_ind'' 0 0 0 * 0.025
                      * (unit_factor_c / 64) / (2 * 10 ^ 4)
     \<and> y 0 3 0 0 = 0
     \<and> (\<Sum>s\<leftarrow>[''ene'', ''ind'']. regridded_field so2_files (''so2_'' @ s) 0 0 0 * 0.025
                                    * (unit_factor_c / 64) / (2 * 10 ^ 4))
         = 0.025 * (unit_factor_c / 64) / (2 * 10 ^ 4)
     \<and> 0.025 * (unit_factor_c / 64) / (2 * 10 ^ 4) \<noteq> 0
     \<and> y 0 0 0 0 = 0 \<and> y 0 7 0 0 = 0"
proof -
  have vals: "regridded_field so2_files ''so2_ind'' = (\<lambda>t i j. 0)"
             "regridded_field so2_files ''so2_ene'' = (\<lambda>t i j. 1)"
    by (simp_all add: regridded_field_def read_field_def so2_files_def const_file_def)
  have nz: "0.025 * (unit_factor_c / 64) / (2 * 10 ^ 4) \<noteq> 0"
    by (simp add: unit_factor_c_def avogadro_number_def kg_to_g_def m2_to_cm2_def)
  have run: "\<exists>fs' y.
     FV_init_rename 2026 (ceds_2010 [''SO2'']) so2_files = Inr fs'
     \<and> read_field4 fs' (Renamed ''so4_a1_anthro-ene-vertical'') ''emiss_ene_ind'' = Inr y
     \<and> y 0 3 0 0 = 0 \<and> y 0 0 0 0 = 0 \<and> y 0 7 0 0 = 0"
    by (simp add: FV_init_rename_def FV_init_def ceds_2010_def species_mapping_def
          full_model_var_list_def FV_rename_def FV_mw_mapping_def sf_mapping_def
          new_time_values_def date_range_MS_def periods_def
          FV_rename_one_def FV_so2_groups_def py_str_def so2_files_def const_file_def
          rename_SO2_def write_sector_group_def read_field_def iadd_field_def put_var_def
          write_ene_vertical_def assign_layers_def scaled_copy_def copy_file_def imul_var_def
          read_field4_def Let_def)
  show ?thesis using run nz by (auto simp: vals)
qed


subsection \<open>The place of IVOC in the processing order\<close>

lemma remove1_single:
  assumes "count_list xs x = 1"
  shows "remove1 x xs = filter (\<lambda>y. y \<noteq> x) xs"
  using assms
proof (induction xs)
  case Nil
  then show ?case by simp
next
  case (Cons a xs)
  show ?case
  proof (cases "a = x")
    case True
    with Cons.prems have "count_list xs x = 0" by simp
    then have "x \<notin> set xs" by (simp add: count_list_0_iff)
    then have "filter (\<lambda>y. y \<noteq> x) xs = xs" by (induction xs) auto
    with True show ?thesis by simp
  next
    case False
    with Cons show ?thesis by simp
  qed
qed

text \<open>
  What the constructor of \<open>FV\<close> does ensure: a requested list in which IVOC occurs
  once comes out with IVOC moved behind all other tracers.
\<close>

lemma FV_moves_single_IVOC_last:
  assumes "FV_init this_year a = Inr self"
      and "arg_model_var_list a = Some requested"
      and "count_list requested ''IVOC'' = 1"
  shows "self_model_var_list self = filter (\<lambda>v. v \<noteq> ''IVOC'') requested @ [''IVOC'']"
proof -
  have "''IVOC'' \<in> set requested"
    using assms(3) count_list_0_iff[of requested "''IVOC''"] by auto
  with assms(1,2) have "self_model_var_list self = remove1 ''IVOC'' requested @ [''IVOC'']"
    by (auto simp: FV_init_def Let_def split: if_splits sum.splits)
  then show ?thesis by (simp add: remove1_single[OF assms(3)])
qed

text \<open>
  C8, evaluated on the request \<open>['IVOC', 'C3H6']\<close> over a store that holds the
  regridded propene field.
  \<^item> \<open>Rename\<close> keeps the requested order, so IVOC is transformed first; the output
    file of its child C3H6 has not been written and the run ends with
    \<open>FileNotFoundError\<close>.
  \<^item> \<open>FV\<close> moves IVOC to the end of \<open>_model_var_list\<close>, but \<open>_species_mapping\<close> was
    built before the move: the loop pairs C3H6 with IVOC's child list and IVOC with
    \<open>propene\<close>, and the run ends with \<open>KeyError\<close> at the first character of
    \<open>propene\<close>.
  \<^item> With IVOC requested twice, \<open>FV\<close> moves only the first occurrence: the order is
    IVOC, C3H6, IVOC.
\<close>

theorem IVOC_order_not_ensured:
  "(\<exists>self. Rename_init 2026 (rename_ceds_2010 [''IVOC'', ''C3H6'']) = Inr self
            \<and> rename_var_namelist self = [''IVOC'', ''C3H6''])
   \<and> Rename_init_rename 2026 (rename_ceds_2010 [''IVOC'', ''C3H6''])
        (regridded_consts [(''propene'', 1)]) = Inl FileNotFoundError
   \<and> (\<exists>self. FV_init 2026 (ceds_2010 [''IVOC'', ''C3H6'']) = Inr self
            \<and> self_model_var_list self = [''C3H6'', ''IVOC'']
            \<and> self_species_mapping self
                = [Multi [''C3H6'', ''C3H8'', ''C2H6'', ''C2H4'', ''BIGENE'', ''BIGALK'',
                          ''CH3COCH3'', ''MEK'', ''CH3CHO'', ''CH2O'', ''BENZENE'',
                          ''TOLUENE'', ''XYLENES''],
                   Single ''propene''])
   \<and> FV_init_rename 2026 (ceds_2010 [''IVOC'', ''C3H6''])
        (regridded_consts [(''propene'', 1)]) = Inl KeyError
   \<and> (\<exists>self. FV_init 2026 (ceds_2010 [''IVOC'', ''IVOC'', ''C3H6'']) = Inr self
            \<and> self_model_var_list self = [''IVOC'', ''C3H6'', ''IVOC''])"
proof -
  have a: "\<exists>self. Rename_init 2026 (rename_ceds_2010 [''IVOC'', ''C3H6'']) = Inr self
            \<and> rename_var_namelist self = [''IVOC'', ''C3H6'']"
    by (simp add: Rename_init_def rename_ceds_2010_def full_model_var_list_def
          species_mapping_def Rename_mw_mapping_def sf_mapping_def Let_def)
  have b: "Rename_init_rename 2026 (rename_ceds_2010 [''IVOC'', ''C3H6''])
        (regridded_consts [(''propene'', 1)]) = Inl FileNotFoundError"
    by (simp add: Rename_init_rename_def Rename_init_def rename_ceds_2010_def
          full_model_var_list_def species_mapping_def Rename_mw_mapping_def sf_mapping_def
          Rename_rename_def new_time_values_def date_range_MS_def periods_def
          Rename_rename_one_def write_emiss_anthro_Multi sub_vars_def IVOC_sub_mw_mapping_def
          regridded_consts_def const_file_def read_field_def Let_def)
  have c: "\<exists>self. FV_init 2026 (ceds_2010 [''IVOC'', ''C3H6'']) = Inr self
            \<and> self_model_var_list self = [''C3H6'', ''IVOC'']
            \<and> self_species_mapping self
                = [Multi [''C3H6'', ''C3H8'', ''C2H6'', ''C2H4'', ''BIGENE'', ''BIGALK'',
                          ''CH3COCH3'', ''MEK'', ''CH3CHO'', ''CH2O'', ''BENZENE'',
                          ''TOLUENE'', ''XYLENES''],
                   Single ''propene'']"
    by (simp add: FV_init_def ceds_2010_def species_mapping_def full_model_var_list_def Let_def)
  have d: "FV_init_rename 2026 (ceds_2010 [''IVOC'', ''C3H6''])
        (regridded_consts [(''propene'', 1)]) = Inl KeyError"
    by (simp add: FV_init_rename_def FV_init_def ceds_2010_def species_mapping_def
          full_model_var_list_def FV_rename_def FV_mw_mapping_def sf_mapping_def
          new_time_values_def date_range_MS_def periods_def
          FV_rename_one_def write_emiss_anthro_def sub_vars_def
          regridded_consts_def const_file_def read_field_def put_var_def Let_def)
  have e: "\<exists>self. FV_init 2026 (ceds_2010 [''IVOC'', ''IVOC'', ''C3H6'']) = Inr self
            \<and> self_model_var_list self = [''IVOC'', ''C3H6'', ''IVOC'']"
    by (simp add: FV_init_def ceds_2010_def species_mapping_def full_model_var_list_def Let_def)
  show ?thesis using a b c d e by blast
qed

lemma lookup_all_Inr:
  assumes "lookup_all d ks = Inr vs"
  shows "vs = map (\<lambda>k. the (d k)) ks \<and> (\<forall>k \<in> set ks. d k \<noteq> None)"
  using assms
  by (induction ks arbitrary: vs) (auto split: option.splits sum.splits)

text \<open>
  When IVOC is not requested, or is requested once and last, the constructor leaves
  the list as it is, and the loop of \<open>FV.rename\<close> pairs every tracer with its own
  inventory mapping.
\<close>

lemma FV_pairs_species_with_tracer:
  assumes "FV_init this_year a = Inr self"
      and "arg_model_var_list a = Some requested"
      and "''IVOC'' \<notin> set requested \<or> (\<exists>xs. requested = xs @ [''IVOC''] \<and> ''IVOC'' \<notin> set xs)"
  shows "self_model_var_list self = requested
         \<and> zip (self_species_mapping self) (self_model_var_list self)
             = map (\<lambda>v. (the (species_mapping v), v)) requested"
proof -
  from assms(1,2) obtain sm where
    sm: "lookup_all species_mapping requested = Inr sm"
    and s1: "self_species_mapping self = sm"
    and s2: "self_model_var_list self
             = (if ''IVOC'' \<in> set requested then remove1 ''IVOC'' requested @ [''IVOC'']
                else requested)"
    by (auto simp: FV_init_def Let_def split: if_splits sum.splits)
  have mv: "self_model_var_list self = requested"
    using assms(3) s2 by (auto simp: remove1_append)
  have "zip sm requested = map (\<lambda>v. (the (species_mapping v), v)) requested"
    using lookup_all_Inr[OF sm] by (simp add: zip_map1 zip_same_conv_map)
  then show ?thesis using mv s1 by simp
qed


subsection \<open>Unit conversion inside the loop of FV.rename\<close>





text \<open>
  The condition on the place of IVOC is needed. Asked for CO, IVOC, NH3 and NO, the
  constructor moves IVOC to the end of the tracer list only, and the loop then hands
  NH3 the child list of IVOC, NO the inventory name of NH3 and IVOC that of NO. The
  body for NH3 with a child list ends without an exception whatever the store holds
  and leaves an output field that is zero everywhere.
\<close>

lemma FV_mispaired_request:
  "\<exists>self. FV_init 2026 (ceds_2010 [''CO'', ''IVOC'', ''NH3'', ''NO'']) = Inr self
      \<and> zip (self_species_mapping self) (self_model_var_list self)
          = [(Single ''co'', ''CO''),
             (Multi [''C3H6'', ''C3H8'', ''C2H6'', ''C2H4'', ''BIGENE'', ''BIGALK'',
                     ''CH3COCH3'', ''MEK'', ''CH3CHO'', ''CH2O'', ''BENZENE'',
                     ''TOLUENE'', ''XYLENES''], ''NH3''),
             (Single ''nh3'', ''NO''),
             (Single ''nox'', ''IVOC'')]"
  by (simp add: FV_init_def ceds_2010_def species_mapping_def full_model_var_list_def Let_def)

lemma FV_mispaired_NH3_zero:
  "\<exists>fs'. FV_rename_one self mw_mapping blank fs (Multi cs, ''NH3'', mw, sf) = Inr fs'
      \<and> read_field fs' (Renamed ''NH3_anthro'') ''emiss_anthro'' = Inr (\<lambda>t i j. 0)"
  by (simp add: FV_rename_one_def write_emiss_anthro_def read_field_def put_var_def Let_def)


subsection \<open>When the loop body returns\<close>

text \<open>
  The loop body ends without an exception for a single species whose regridded file
  can be read and whose molecular weight is not zero.
\<close>

lemma FV_single_species_returns:
  assumes "read_field fs (Regridded s) ''emiss_anthro'' = Inr x"
      and "mw \<noteq> 0"
      and "model_var \<notin> {''SO2'', ''BIGALK'', ''XYLENES'', ''IVOC''}"
  shows "\<exists>fs'. FV_rename_one self mw_mapping blank fs (Single s, model_var, mw, sf) = Inr fs'"
proof -
  let ?out = "model_var @ ''_anthro''"
  have rd: "read_field (fs(Renamed ?out \<mapsto> blank)) (Regridded s) ''emiss_anthro'' = Inr x"
    using assms(1) by (simp add: read_field_upd_other)
  have w: "write_emiss_anthro fs ?out blank (Single s) mw sf
           = Inr (fs(Renamed ?out \<mapsto>
                 blank(''emiss_anthro'' \<mapsto> Var3 (\<lambda>t i j. x t i j * (unit_factor_c / mw) * sf))))"
    using assms(2) by (simp add: write_emiss_anthro_def Let_def rd put_var_def)
  consider "model_var = ''bc_a4''" | "model_var = ''CO''" | "model_var = ''pom_a4''"
    | "model_var \<noteq> ''bc_a4''" "model_var \<noteq> ''CO''" "model_var \<noteq> ''pom_a4''"
    by blast
  then show ?thesis
  proof cases
    case 1
    then show ?thesis
      using assms(3) w by (simp add: FV_rename_one_def Let_def scaled_copy_def copy_file_def
          imul_var_def put_var_def)
  next
    case 2
    then show ?thesis
      using assms(3) w by (simp add: FV_rename_one_def Let_def scaled_copy_def copy_file_def
          imul_var_def put_var_def)
  next
    case 3
    then show ?thesis
      using assms(3) w by (simp add: FV_rename_one_def Let_def scaled_copy_def copy_file_def
          imul_var_def put_var_def)
  next
    case 4
    then show ?thesis
      using assms(3) w by (simp add: FV_rename_one_def Let_def)
  qed
qed

lemma add_regridded_children_returns:
  assumes "\<forall>c \<in> set cs. (\<exists>x. read_field fs (Regridded c) ''emiss_anthro'' = Inr x)
                         \<and> (\<exists>w. m c = Some w \<and> w \<noteq> 0)"
      and "mw \<noteq> 0"
      and "\<exists>acc. read_field fs (Renamed label) ''emiss_anthro'' = Inr acc"
  shows "\<exists>fs'. add_regridded_children m label mw sf cs fs = Inr fs'"
  using assms
proof (induction cs arbitrary: fs)
  case Nil
  then show ?case by simp
next
  case (Cons c cs)
  from Cons.prems(1) obtain x w where
    x: "read_field fs (Regridded c) ''emiss_anthro'' = Inr x"
    and w: "m c = Some w" "w \<noteq> 0"
    by auto
  from Cons.prems(3) obtain acc where acc: "read_field fs (Renamed label) ''emiss_anthro'' = Inr acc"
    by blast
  then obtain f where f: "fs (Renamed label) = Some f"
    by (auto simp: read_field_def split: option.splits)
  let ?fs2 = "fs(Renamed label \<mapsto> f(''emiss_anthro'' \<mapsto>
            Var3 (\<lambda>t i j. acc t i j + x t i j * (w / mw) * (unit_factor_c / w) * sf)))"
  have add: "iadd_field fs (Renamed label) ''emiss_anthro''
                (\<lambda>t i j. x t i j * (w / mw) * (unit_factor_c / w) * sf) = Inr ?fs2"
    by (simp add: iadd_field_def acc put_var_def f)
  have p1: "\<forall>c \<in> set cs. (\<exists>x. read_field ?fs2 (Regridded c) ''emiss_anthro'' = Inr x)
                         \<and> (\<exists>w. m c = Some w \<and> w \<noteq> 0)"
    using Cons.prems(1) by (simp add: read_field_upd_other)
  have p3: "\<exists>acc. read_field ?fs2 (Renamed label) ''emiss_anthro'' = Inr acc"
    by (simp add: read_field_upd_same)
  have nz: "(mw = 0 \<or> w = 0) = False"
    using w(2) Cons.prems(2) by simp
  have step: "add_regridded_children m label mw sf (c # cs) fs
              = add_regridded_children m label mw sf cs ?fs2"
    by (simp only: add_regridded_children.simps w(1) option.case x on_success_Inr nz if_False add)
  from Cons.IH[OF p1 Cons.prems(2) p3]
  show ?case
    by (simp only: step)
qed

text \<open>
  It ends without an exception for a first-tier composite when every child has a
  regridded file and a molecular weight other than zero, and for IVOC when every
  child has a renamed output file and a molecular weight.
\<close>

lemma first_tier_returns:
  assumes "model_var = ''BIGALK'' \<or> model_var = ''XYLENES''"
      and "\<forall>c \<in> set children. (\<exists>x. read_field fs (Regridded c) ''emiss_anthro'' = Inr x)
                         \<and> (\<exists>w. mw_mapping c = Some w \<and> w \<noteq> 0)"
      and "mw \<noteq> 0"
  shows "\<exists>fs'. FV_rename_one self mw_mapping blank fs (Multi children, model_var, mw, sf) = Inr fs'"
proof -
  let ?out = "model_var @ ''_anthro''"
  let ?fs1 = "fs(Renamed ?out \<mapsto> blank(''emiss_anthro'' \<mapsto> Var3 (\<lambda>t i j. 0)))"
  have p1: "\<forall>c \<in> set children. (\<exists>x. read_field ?fs1 (Regridded c) ''emiss_anthro'' = Inr x)
                         \<and> (\<exists>w. mw_mapping c = Some w \<and> w \<noteq> 0)"
    using assms(2) by (simp add: read_field_upd_other)
  have p3: "\<exists>acc. read_field ?fs1 (Renamed ?out) ''emiss_anthro'' = Inr acc"
    by (simp add: read_field_upd_same)
  from add_regridded_children_returns[OF p1 assms(3) p3] obtain fs' where
    r: "add_regridded_children mw_mapping ?out mw sf children ?fs1 = Inr fs'"
    by blast
  have "FV_rename_one self mw_mapping blank fs (Multi children, model_var, mw, sf) = Inr fs'"
    using assms(1) r
    by (auto simp: FV_rename_one_def write_emiss_anthro_Multi sub_vars_def Let_def)
  then show ?thesis by blast
qed

lemma add_renamed_children_returns:
  assumes "\<forall>c \<in> set cs. (\<exists>x. read_field fs (Renamed (c @ ''_anthro'')) ''emiss_anthro'' = Inr x)
                         \<and> (\<exists>w. m c = Some w) \<and> c @ ''_anthro'' \<noteq> label"
      and "mw \<noteq> 0"
      and "\<exists>acc. read_field fs (Renamed label) ''emiss_anthro'' = Inr acc"
  shows "\<exists>fs'. add_renamed_children m label mw sf cs fs = Inr fs'"
  using assms
proof (induction cs arbitrary: fs)
  case Nil
  then show ?case by simp
next
  case (Cons c cs)
  from Cons.prems(1) obtain x w where
    x: "read_field fs (Renamed (c @ ''_anthro'')) ''emiss_anthro'' = Inr x"
    and w: "m c = Some w"
    by auto
  from Cons.prems(3) obtain acc where acc: "read_field fs (Renamed label) ''emiss_anthro'' = Inr acc"
    by blast
  then obtain f where f: "fs (Renamed label) = Some f"
    by (auto simp: read_field_def split: option.splits)
  let ?fs2 = "fs(Renamed label \<mapsto> f(''emiss_anthro'' \<mapsto>
            Var3 (\<lambda>t i j. acc t i j + x t i j * (w / mw) * sf)))"
  have add: "iadd_field fs (Renamed label) ''emiss_anthro''
                (\<lambda>t i j. x t i j * (w / mw) * sf) = Inr ?fs2"
    by (simp add: iadd_field_def acc put_var_def f)
  have p1: "\<forall>c \<in> set cs. (\<exists>x. read_field ?fs2 (Renamed (c @ ''_anthro'')) ''emiss_anthro'' = Inr x)
                         \<and> (\<exists>w. m c = Some w) \<and> c @ ''_anthro'' \<noteq> label"
    using Cons.prems(1) by (simp add: read_field_upd_other)
  have p3: "\<exists>acc. read_field ?fs2 (Renamed label) ''emiss_anthro'' = Inr acc"
    by (simp add: read_field_upd_same)
  have nz: "(mw = 0) = False"
    using Cons.prems(2) by simp
  have step: "add_renamed_children m label mw sf (c # cs) fs
              = add_renamed_children m label mw sf cs ?fs2"
    by (simp only: add_renamed_children.simps w option.case x on_success_Inr nz if_False add)
  from Cons.IH[OF p1 Cons.prems(2) p3]
  show ?case
    by (simp only: step)
qed

lemma IVOC_returns:
  assumes "\<forall>c \<in> set children.
             (\<exists>x. read_field fs (Renamed (c @ ''_anthro'')) ''emiss_anthro'' = Inr x)
             \<and> (\<exists>w. mw_mapping c = Some w)"
      and "''IVOC'' \<notin> set children"
      and "mw \<noteq> 0"
  shows "\<exists>fs'. FV_rename_one self mw_mapping blank fs (Multi children, ''IVOC'', mw, sf) = Inr fs'"
proof -
  let ?fs1 = "fs(Renamed ''IVOC_anthro'' \<mapsto> blank(''emiss_anthro'' \<mapsto> Var3 (\<lambda>t i j. 0)))"
  have ne: "\<forall>c \<in> set children. c @ ''_anthro'' \<noteq> ''IVOC_anthro''"
    using assms(2) by auto
  have p1: "\<forall>c \<in> set children.
              (\<exists>x. read_field ?fs1 (Renamed (c @ ''_anthro'')) ''emiss_anthro'' = Inr x)
              \<and> (\<exists>w. mw_mapping c = Some w) \<and> c @ ''_anthro'' \<noteq> ''IVOC_anthro''"
    using assms(1) ne by (simp add: read_field_upd_other)
  have p3: "\<exists>acc. read_field ?fs1 (Renamed ''IVOC_anthro'') ''emiss_anthro'' = Inr acc"
    by (simp add: read_field_upd_same)
  from add_renamed_children_returns[OF p1 assms(3) p3] obtain fs' where
    r: "add_renamed_children mw_mapping ''IVOC_anthro'' mw sf children ?fs1 = Inr fs'"
    by blast
  have "FV_rename_one self mw_mapping blank fs (Multi children, ''IVOC'', mw, sf) = Inr fs'"
    using r
    by (simp add: FV_rename_one_def write_emiss_anthro_Multi sub_vars_def Let_def)
  then show ?thesis by blast
qed

subsection \<open>The class Rename\<close>

lemma put_var_frame:
  assumes "put_var fs p v x = Inr fs'" and "q \<noteq> p"
  shows "fs' q = fs q"
  using assms by (auto simp: put_var_Inr)

lemma iadd_field_frame:
  assumes "iadd_field fs p v x = Inr fs'" and "q \<noteq> p"
  shows "fs' q = fs q"
  using iadd_field_Inr[OF assms(1)] assms(2) by auto

lemma imul_var_frame:
  assumes "imul_var fs p v c = Inr fs'" and "q \<noteq> p"
  shows "fs' q = fs q"
  using assms
  by (auto simp: imul_var_def put_var_Inr split: option.splits ncvar.splits)

lemma add_sectors_frame:
  assumes "add_sectors sp mw label v ss fs = Inr fs'" and "q \<noteq> Renamed label"
  shows "fs' q = fs q"
  using assms
proof (induction ss arbitrary: fs)
  case Nil
  then show ?case by simp
next
  case (Cons s ss)
  from Cons.prems(1) obtain x fs2 where
    add: "iadd_field fs (Renamed label) v (\<lambda>t i j. x t i j * 0.975 * (unit_factor_c / mw)) = Inr fs2"
    and rest: "add_sectors sp mw label v ss fs2 = Inr fs'"
    by (auto simp: on_success_eq_Inr split: if_splits)
  show ?case
    using Cons.IH[OF rest Cons.prems(2)] iadd_field_frame[OF add Cons.prems(2)] by simp
qed

lemma write_sector_group_frame:
  assumes "write_sector_group fs sp mw label v ss = Inr fs'" and "q \<noteq> Renamed label"
  shows "fs' q = fs q"
proof -
  from assms(1) obtain fs1 where
    p: "put_var fs (Renamed label) v (Var3 (\<lambda>t i j. 0)) = Inr fs1"
    and a: "add_sectors sp mw label v ss fs1 = Inr fs'"
    unfolding write_sector_group_def on_success_eq_Inr by blast
  show ?thesis
    using add_sectors_frame[OF a assms(2)] put_var_frame[OF p assms(2)] by simp
qed

lemma assign_layers_frame:
  assumes "assign_layers fs p v lo hi x = Inr fs'" and "q \<noteq> p"
  shows "fs' q = fs q"
  using assms
  by (auto simp: assign_layers_def put_var_Inr split: option.splits ncvar.splits)

lemma write_ene_vertical_frame:
  assumes "write_ene_vertical fs sp mw label ss = Inr fs'" and "q \<noteq> Renamed label"
  shows "fs' q = fs q"
proof -
  from assms(1) obtain fs1 fs2 fs3 lv where
    p1: "put_var fs (Renamed label) ''altitude'' (Levels vertical_levels) = Inr fs1"
    and p2: "put_var fs1 (Renamed label) ''altitude_int'' (Levels vertical_levels_int) = Inr fs2"
    and p3: "put_var fs2 (Renamed label) ''emiss_ene_ind'' (Var4 (\<lambda>t k i j. 0)) = Inr fs3"
    and fin: "(case lv of None \<Rightarrow> Inl NameError
               | Some layer_values \<Rightarrow>
                   assign_layers fs3 (Renamed label) ''emiss_ene_ind'' 3 7 layer_values) = Inr fs'"
    unfolding write_ene_vertical_def on_success_eq_Inr by blast
  from fin obtain x where
    al: "assign_layers fs3 (Renamed label) ''emiss_ene_ind'' 3 7 x = Inr fs'"
    by (cases lv) auto
  show ?thesis
    using assign_layers_frame[OF al assms(2)] put_var_frame[OF p3 assms(2)]
      put_var_frame[OF p2 assms(2)] put_var_frame[OF p1 assms(2)] by simp
qed

lemma rename_SO2_frame:
  assumes "rename_SO2 blank ag_sol_was res_tra ene_ind fs sp model_var mw = Inr fs'"
      and "q \<noteq> Renamed (model_var @ ''_anthro-ag-ship-res'')"
      and "q \<noteq> Renamed (model_var @ ''_anthro-ene'')"
      and "q \<noteq> Renamed ''so4_a1_anthro-ag-ship''"
      and "q \<noteq> Renamed ''so4_a2_anthro-res''"
      and "q \<noteq> Renamed ''so4_a1_anthro-ene-vertical''"
      and "q \<noteq> Renamed ''num_so4_a1_anthro-ag-ship''"
      and "q \<noteq> Renamed ''num_so4_a2_anthro-res''"
      and "q \<noteq> Renamed ''num_so4_a1_anthro-ene-vertical''"
  shows "fs' q = fs q"
proof -
  let ?f1 = "model_var @ ''_anthro-ag-ship-res''" and ?f2 = "model_var @ ''_anthro-ene''"
  from assms(1) obtain s1 s2 s3 s4 s5 s6 s7 s8 s9 s10 s11 where
    a1: "write_sector_group (fs(Renamed ?f1 \<mapsto> blank)) sp mw ?f1 ''emiss_ag_sol_was'' ag_sol_was = Inr s1"
    and a2: "write_sector_group s1 sp mw ?f1 ''emiss_res_tran'' res_tra = Inr s2"
    and a3: "write_sector_group s2 sp mw ?f1 ''emiss_ship'' [''shp''] = Inr s3"
    and a4: "write_sector_group (s3(Renamed ?f2 \<mapsto> blank)) sp mw ?f2 ''emiss_ene_ind'' ene_ind = Inr s4"
    and a5: "write_sector_group (s4(Renamed ''so4_a1_anthro-ag-ship'' \<mapsto> blank)) sp mw
               ''so4_a1_anthro-ag-ship'' ''emiss_ag_sol_was'' ag_sol_was = Inr s5"
    and a6: "write_sector_group s5 sp mw ''so4_a1_anthro-ag-ship'' ''emiss_ship'' [''shp''] = Inr s6"
    and a7: "write_sector_group (s6(Renamed ''so4_a2_anthro-res'' \<mapsto> blank)) sp mw
               ''so4_a2_anthro-res'' ''emiss_res_tran'' res_tra = Inr s7"
    and a8: "write_ene_vertical (s7(Renamed ''so4_a1_anthro-ene-vertical'' \<mapsto> blank)) sp mw
               ''so4_a1_anthro-ene-vertical'' ene_ind = Inr s8"
    and a9: "scaled_copy s8 ''so4_a1_anthro-ag-ship'' ''num_so4_a1_anthro-ag-ship''
               ''emiss_ag_sol_was'' (115 / mass_per_particle 1770 (0.134 / 10 ^ 6)) = Inr s9"
    and a10: "imul_var s9 (Renamed ''num_so4_a1_anthro-ag-ship'') ''emiss_ship''
               (115 / mass_per_particle 1770 (0.261 / 10 ^ 6)) = Inr s10"
    and a11: "scaled_copy s10 ''so4_a2_anthro-res'' ''num_so4_a2_anthro-res''
               ''emiss_res_tran'' (115 / mass_per_particle 1770 (0.0504 / 10 ^ 6)) = Inr s11"
    and a12: "scaled_copy s11 ''so4_a1_anthro-ene-vertical'' ''num_so4_a1_anthro-ene-vertical''
               ''emiss_ene_ind'' (115 / mass_per_particle 1770 (0.261 / 10 ^ 6)) = Inr fs'"
    unfolding rename_SO2_def Let_def on_success_eq_Inr by blast
  have "fs' q = s11 q" by (rule scaled_copy_frame[OF a12 assms(9)])
  also have "\<dots> = s10 q" by (rule scaled_copy_frame[OF a11 assms(8)])
  also have "\<dots> = s9 q" by (rule imul_var_frame[OF a10 assms(7)])
  also have "\<dots> = s8 q" by (rule scaled_copy_frame[OF a9 assms(7)])
  also have "\<dots> = (s7(Renamed ''so4_a1_anthro-ene-vertical'' \<mapsto> blank)) q"
    by (rule write_ene_vertical_frame[OF a8 assms(6)])
  also have "\<dots> = s7 q" using assms(6) by simp
  also have "\<dots> = (s6(Renamed ''so4_a2_anthro-res'' \<mapsto> blank)) q"
    by (rule write_sector_group_frame[OF a7 assms(5)])
  also have "\<dots> = s6 q" using assms(5) by simp
  also have "\<dots> = s5 q" by (rule write_sector_group_frame[OF a6 assms(4)])
  also have "\<dots> = (s4(Renamed ''so4_a1_anthro-ag-ship'' \<mapsto> blank)) q"
    by (rule write_sector_group_frame[OF a5 assms(4)])
  also have "\<dots> = s4 q" using assms(4) by simp
  also have "\<dots> = (s3(Renamed ?f2 \<mapsto> blank)) q"
    by (rule write_sector_group_frame[OF a4 assms(3)])
  also have "\<dots> = s3 q" using assms(3) by simp
  also have "\<dots> = s2 q" by (rule write_sector_group_frame[OF a3 assms(2)])
  also have "\<dots> = s1 q" by (rule write_sector_group_frame[OF a2 assms(2)])
  also have "\<dots> = (fs(Renamed ?f1 \<mapsto> blank)) q"
    by (rule write_sector_group_frame[OF a1 assms(2)])
  also have "\<dots> = fs q" using assms(2) by simp
  finally show ?thesis .
qed


text \<open>
  \<open>Rename.rename\<close> writes the converted field for every tracer with a single
  inventory name, sulfur dioxide included: its sulfur files are written after the
  output file and under other names.
\<close>

lemma Rename_single_species_conversion:
  assumes "species_mapping varname = Some (Single s)"
      and "Rename_rename_one self blank fs (varname, Single s, mw, sf) = Inr fs'"
  shows "\<exists>x. read_field fs (Regridded s) ''emiss_anthro'' = Inr x
           \<and> read_field fs' (Renamed (varname @ ''_anthro'')) ''emiss_anthro''
               = Inr (\<lambda>t i j. x t i j * ((avogadro_number * kg_to_g / m2_to_cm2) / mw) * sf)"
proof -
  let ?out = "varname @ ''_anthro''"
  note nc = single_not_composite[OF assms(1)]
  from assms(2) obtain fs1 fs2 fs3 fs4 where
    w: "write_emiss_anthro fs ?out blank (Single s) mw sf = Inr fs1"
    and s2: "(if varname = ''bc_a4''
             then scaled_copy fs1 ?out (''num_'' @ varname @ ''_anthro'') ''emiss_anthro''
                    (mw / mass_per_particle 1700 (0.134 / 10 ^ 6))
             else Inr fs1) = Inr fs2"
    and s3: "(if varname = ''CO''
             then on_success
                    (scaled_copy fs2 ?out ''HCN_anthro'' ''emiss_anthro'' ((0.0055 * mw) / 27))
                    (\<lambda>h. scaled_copy h ?out ''CH3CN_anthro'' ''emiss_anthro''
                            ((0.0025 * mw) / 41))
             else Inr fs2) = Inr fs3"
    and s4: "(if varname = ''pom_a4''
             then on_success
                    (scaled_copy fs3 ?out (''num_'' @ varname @ ''_anthro'') ''emiss_anthro''
                       (mw / mass_per_particle 1000 (0.134 / 10 ^ 6)))
                    (\<lambda>n. scaled_copy n ?out ''SVOC_anthro'' ''emiss_anthro'' (0.6 * mw / 310))
             else Inr fs3) = Inr fs4"
    and s5: "(if varname = ''SO2''
           then (case Rename_so2_groups (rename_source self) of
                   (ag_sol_was, res_tra, ene_ind) \<Rightarrow>
                     rename_SO2 blank ag_sol_was res_tra ene_ind fs4 (py_str (Single s))
                       varname mw)
           else Inr fs4) = Inr fs'"
    unfolding Rename_rename_one_def Let_def prod.case
    by (simp only: nc if_False on_success_eq_Inr set_simps insert_iff empty_iff
          simp_thms on_success_Inr on_success_Inr_id) blast
  have f2: "fs2 (Renamed ?out) = fs1 (Renamed ?out)"
  proof (cases "varname = ''bc_a4''")
    case True
    show ?thesis
      by (rule scaled_copy_frame[OF s2[unfolded if_P[OF True]]]) (rule num_label_differs)
  next
    case False
    show ?thesis using s2[unfolded if_not_P[OF False]] by simp
  qed
  have f3: "fs3 (Renamed ?out) = fs2 (Renamed ?out)"
  proof (cases "varname = ''CO''")
    case True
    from s3[unfolded if_P[OF True] on_success_eq_Inr] obtain h where
      h1: "scaled_copy fs2 ?out ''HCN_anthro'' ''emiss_anthro'' ((0.0055 * mw) / 27) = Inr h"
      and h2: "scaled_copy h ?out ''CH3CN_anthro'' ''emiss_anthro'' ((0.0025 * mw) / 41) = Inr fs3"
      by blast
    have "fs3 (Renamed ?out) = h (Renamed ?out)"
      by (rule scaled_copy_frame[OF h2]) (simp add: True)
    also have "\<dots> = fs2 (Renamed ?out)"
      by (rule scaled_copy_frame[OF h1]) (simp add: True)
    finally show ?thesis .
  next
    case False
    show ?thesis using s3[unfolded if_not_P[OF False]] by simp
  qed
  have f4: "fs4 (Renamed ?out) = fs3 (Renamed ?out)"
  proof (cases "varname = ''pom_a4''")
    case True
    from s4[unfolded if_P[OF True] on_success_eq_Inr] obtain n where
      n1: "scaled_copy fs3 ?out (''num_'' @ varname @ ''_anthro'') ''emiss_anthro''
             (mw / mass_per_particle 1000 (0.134 / 10 ^ 6)) = Inr n"
      and n2: "scaled_copy n ?out ''SVOC_anthro'' ''emiss_anthro'' (0.6 * mw / 310) = Inr fs4"
      by blast
    have "fs4 (Renamed ?out) = n (Renamed ?out)"
      by (rule scaled_copy_frame[OF n2]) (simp add: True)
    also have "\<dots> = fs3 (Renamed ?out)"
      by (rule scaled_copy_frame[OF n1]) (rule num_label_differs)
    finally show ?thesis .
  next
    case False
    show ?thesis using s4[unfolded if_not_P[OF False]] by simp
  qed
  have f5: "fs' (Renamed ?out) = fs4 (Renamed ?out)"
  proof (cases "varname = ''SO2''")
    case True
    obtain a r e where g: "Rename_so2_groups (rename_source self) = (a, r, e)"
      by (cases "Rename_so2_groups (rename_source self)") auto
    from s5[unfolded if_P[OF True] g prod.case]
    have run: "rename_SO2 blank a r e fs4 (py_str (Single s)) varname mw = Inr fs'" .
    show ?thesis
      by (rule rename_SO2_frame[OF run]) (simp_all add: True)
  next
    case False
    show ?thesis using s5[unfolded if_not_P[OF False]] by simp
  qed
  from write_emiss_anthro_Single[OF w] obtain x where
    x: "read_field fs (Regridded s) ''emiss_anthro'' = Inr x"
    and fs1: "fs1 = fs(Renamed ?out \<mapsto>
                 blank(''emiss_anthro'' \<mapsto> Var3 (\<lambda>t i j. x t i j * (unit_factor_c / mw) * sf)))"
    by blast
  have "read_field fs' (Renamed ?out) ''emiss_anthro'' = read_field fs1 (Renamed ?out) ''emiss_anthro''"
    by (rule read_field_cong) (simp only: f2 f3 f4 f5)
  also have "\<dots> = Inr (\<lambda>t i j. x t i j * (unit_factor_c / mw) * sf)"
    by (simp add: fs1 read_field_def)
  finally show ?thesis using x by (simp add: unit_factor_c_def)
qed

text \<open>
  The composites of \<open>Rename.rename\<close> are the same sums, with the child molecular
  weights of its own tables.
\<close>

lemma Rename_first_tier_output:
  assumes "varname = ''BIGALK'' \<or> varname = ''XYLENES''"
      and "Rename_rename_one self blank fs (varname, Multi children, mw, sf) = Inr fs'"
      and "table = (if varname = ''BIGALK'' then BIGALK_sub_mw_mapping
                    else XYLENES_sub_mw_mapping)"
  shows "read_field fs' (Renamed (varname @ ''_anthro'')) ''emiss_anthro''
         = Inr (\<lambda>t i j. 0
                  + (\<Sum>c\<leftarrow>children. regridded_field fs c t i j * (table_value table c / mw)
                                 * (unit_factor_c / table_value table c) * sf))"
proof -
  let ?out = "varname @ ''_anthro''"
  let ?fs1 = "fs(Renamed ?out \<mapsto> blank(''emiss_anthro'' \<mapsto> Var3 (\<lambda>t i j. 0)))"
  have run: "add_regridded_children table ?out mw sf children ?fs1 = Inr fs'"
    using assms
    by (auto simp: Rename_rename_one_def write_emiss_anthro_Multi sub_vars_def Let_def)
  have acc: "read_field ?fs1 (Renamed ?out) ''emiss_anthro'' = Inr (\<lambda>t i j. 0)"
    by (rule read_field_upd_same)
  from add_regridded_children_result[OF run acc]
  show ?thesis
    by (simp add: regridded_field_upd)
qed

lemma Rename_IVOC_output:
  assumes "Rename_rename_one self blank fs (''IVOC'', Multi children, mw, sf) = Inr fs'"
      and "''IVOC'' \<notin> set children"
  shows "read_field fs' (Renamed ''IVOC_anthro'') ''emiss_anthro''
         = Inr (\<lambda>t i j. 0
                  + (\<Sum>c\<leftarrow>children. renamed_field fs c t i j
                                 * (table_value IVOC_sub_mw_mapping c / mw) * sf))"
proof -
  let ?fs1 = "fs(Renamed ''IVOC_anthro'' \<mapsto> blank(''emiss_anthro'' \<mapsto> Var3 (\<lambda>t i j. 0)))"
  have run: "add_renamed_children IVOC_sub_mw_mapping ''IVOC_anthro'' mw sf children ?fs1 = Inr fs'"
    using assms(1)
    by (simp add: Rename_rename_one_def write_emiss_anthro_Multi sub_vars_def Let_def)
  have acc: "read_field ?fs1 (Renamed ''IVOC_anthro'') ''emiss_anthro'' = Inr (\<lambda>t i j. 0)"
    by (rule read_field_upd_same)
  have ne: "\<forall>c \<in> set children. c @ ''_anthro'' \<noteq> ''IVOC_anthro''"
    using assms(2) by auto
  have rf: "\<And>c. c \<in> set children \<Longrightarrow> renamed_field ?fs1 c = renamed_field fs c"
    using ne by (intro renamed_field_upd) simp
  have sums: "(\<Sum>c\<leftarrow>children. renamed_field ?fs1 c t i j * (table_value IVOC_sub_mw_mapping c / mw) * sf)
              = (\<Sum>c\<leftarrow>children. renamed_field fs c t i j * (table_value IVOC_sub_mw_mapping c / mw) * sf)" for t i j
    by (rule arg_cong[where f=sum_list], rule map_cong) (simp_all add: rf)
  from add_renamed_children_result[OF run acc ne]
  show ?thesis
    by (simp only: sums)
qed

end
